theory Spec2Isabelle
  imports Main "HOL-Library.Word"
begin

text \<open>
  The controller of \<^verbatim>\<open>internal/controller/basicauthenticator_controller.go\<close>: the
  method \<^verbatim>\<open>Reconcile\<close> of \<^verbatim>\<open>BasicAuthenticatorReconciler\<close>, over a client given by its
  operations, and the properties the specification states of it.
\<close>

section \<open>The objects the reconciler handles\<close>

text \<open>
  \<^verbatim>\<open>types.NamespacedName{Namespace, Name}\<close>: the identity of an object of a given kind,
  as the pair (namespace, name).
\<close>

type_synonym NamespacedName = "string \<times> string"

text \<open>
  An owner reference of \<^verbatim>\<open>metav1.ObjectMeta.OwnerReferences\<close>. The library compares two
  references by kind and name, so these and the \<^verbatim>\<open>Controller\<close> flag are kept.
\<close>

record OwnerReference =
  Kind :: string
  RefName :: string
  Controller :: bool

text \<open>
  \<^verbatim>\<open>metav1.ObjectMeta\<close>, embedded in every object (the Go structs embed it, the records
  extend it), with the fields the reconciler or the store read.
\<close>

record ObjectMeta =
  Name :: string
  Namespace :: string
  ResourceVersion :: nat
  OwnerReferences :: "OwnerReference list"

text \<open>
  \<^verbatim>\<open>BasicAuthenticator\<close> (package api/v1alpha1, whose declaration is outside the controller
  file): \<^verbatim>\<open>Reconcile\<close> reads \<^verbatim>\<open>Spec.CredentialsSecretRef\<close> and \<^verbatim>\<open>Spec.Type\<close> and writes
  \<^verbatim>\<open>Status.ReadyReplicas\<close> (a Go \<^verbatim>\<open>int\<close>); the remaining spec fields, which only the
  helper methods read, are the association list \<open>Params\<close>.
\<close>

record BasicAuthenticatorSpec =
  Type :: string
  CredentialsSecretRef :: string
  Params :: "(string \<times> string) list"

record BasicAuthenticatorStatus =
  ReadyReplicas :: int

record BasicAuthenticator = ObjectMeta +
  Spec :: BasicAuthenticatorSpec
  Status :: BasicAuthenticatorStatus

text \<open>
  \<^verbatim>\<open>corev1.Secret\<close> and \<^verbatim>\<open>corev1.ConfigMap\<close>: metadata and the data map. A Go map is
  modelled by its association list in a fixed order of the keys, so that equality of
  the lists is \<^verbatim>\<open>reflect.DeepEqual\<close> of the maps (up to the difference Go makes between a
  nil map and an empty one); likewise equality of the records below is
  \<^verbatim>\<open>reflect.DeepEqual\<close> of the structs.
\<close>

record Secret = ObjectMeta +
  SecretData :: "(string \<times> string) list"

record ConfigMap = ObjectMeta +
  Data :: "(string \<times> string) list"

text \<open>
  \<^verbatim>\<open>appv1.Deployment\<close>. Of \<^verbatim>\<open>DeploymentSpec\<close> the model keeps the replica count, the
  selector, the containers and volumes of the pod template, and three of the fields that
  an API server fills in when the client leaves them unset (\<^verbatim>\<open>Strategy\<close>,
  \<^verbatim>\<open>RevisionHistoryLimit\<close>, \<^verbatim>\<open>ProgressDeadlineSeconds\<close>). Pointers to \<^verbatim>\<open>int32\<close> are
  options of 32-bit words; \<^verbatim>\<open>Status.ReadyReplicas\<close> is an \<^verbatim>\<open>int32\<close>.
\<close>

record Container =
  ContainerName :: string
  Image :: string
  VolumeMounts :: "string list"

record DeploymentSpec =
  Replicas :: "32 word option"
  Selector :: "(string \<times> string) list"
  Containers :: "Container list"
  Volumes :: "string list"
  Strategy :: string
  RevisionHistoryLimit :: "32 word option"
  ProgressDeadlineSeconds :: "32 word option"

record DeploymentStatus =
  DReadyReplicas :: "32 word"

record Deployment = ObjectMeta +
  DSpec :: DeploymentSpec
  DStatus :: DeploymentStatus

text \<open>
  Errors of the API machinery: the three reasons the store contract names, and any other
  failure with its message. \<^verbatim>\<open>errors.IsNotFound\<close> is the test for the first.
\<close>

datatype err = NotFound | AlreadyExists | Conflict | Failure string

fun IsNotFound :: "err \<Rightarrow> bool" where
  "IsNotFound NotFound = True"
| "IsNotFound _ = False"

text \<open>\<^verbatim>\<open>ctrl.Result\<close>; the reconciler only ever sets \<^verbatim>\<open>Requeue\<close>.\<close>

record Result =
  Requeue :: bool

section \<open>The client and the reconciler\<close>

text \<open>
  \<^verbatim>\<open>client.Client\<close>, embedded in the reconciler, is an interface: the model takes its
  operations as a record of functions over a state \<open>'s\<close> of the store, one function for
  each kind of object \<^verbatim>\<open>Reconcile\<close> passes to \<^verbatim>\<open>Get\<close>, \<^verbatim>\<open>Create\<close>, \<^verbatim>\<open>Update\<close> and
  \<^verbatim>\<open>Status().Update\<close>. A read returns the error or the object; a write returns the error,
  if any. \<^verbatim>\<open>Update\<close> of a deployment also returns the object as the server answers it,
  because \<^verbatim>\<open>Reconcile\<close> reads the status of the object it has just passed to \<^verbatim>\<open>Update\<close>
  (the client decodes the answer into its argument).
\<close>

record 's Client =
  GetBasicAuthenticator :: "NamespacedName \<Rightarrow> 's \<Rightarrow> (err + BasicAuthenticator) \<times> 's"
  GetSecret :: "NamespacedName \<Rightarrow> 's \<Rightarrow> (err + Secret) \<times> 's"
  GetConfigMap :: "NamespacedName \<Rightarrow> 's \<Rightarrow> (err + ConfigMap) \<times> 's"
  GetDeployment :: "NamespacedName \<Rightarrow> 's \<Rightarrow> (err + Deployment) \<times> 's"
  CreateSecret :: "Secret \<Rightarrow> 's \<Rightarrow> err option \<times> 's"
  CreateConfigMap :: "ConfigMap \<Rightarrow> 's \<Rightarrow> err option \<times> 's"
  CreateDeployment :: "Deployment \<Rightarrow> 's \<Rightarrow> err option \<times> 's"
  UpdateBasicAuthenticator :: "BasicAuthenticator \<Rightarrow> 's \<Rightarrow> err option \<times> 's"
  UpdateConfigMap :: "ConfigMap \<Rightarrow> 's \<Rightarrow> err option \<times> 's"
  UpdateDeployment :: "Deployment \<Rightarrow> 's \<Rightarrow> (err + Deployment) \<times> 's"
  StatusUpdate :: "BasicAuthenticator \<Rightarrow> 's \<Rightarrow> err option \<times> 's"

text \<open>
  \<^verbatim>\<open>BasicAuthenticatorReconciler\<close>: the client, the scheme (here the list of the kinds
  registered in it) and the four methods that \<^verbatim>\<open>Reconcile\<close> calls and that are defined
  outside the controller file. They are parameters of the model: \<open>CreateCredentials\<close>,
  \<open>CreateNginxConfigmap\<close> and \<open>CreateNginxDeployment\<close> build an object from their
  arguments; \<open>Injector\<close> reads the store and returns the deployments to update, or an
  error.
\<close>

record 's BasicAuthenticatorReconciler =
  Client :: "'s Client"
  Scheme :: "string list"
  CreateCredentials :: "BasicAuthenticator \<Rightarrow> Secret"
  CreateNginxConfigmap :: "BasicAuthenticator \<Rightarrow> ConfigMap"
  CreateNginxDeployment :: "BasicAuthenticator \<Rightarrow> string \<Rightarrow> string \<Rightarrow> Deployment"
  Injector :: "BasicAuthenticator \<Rightarrow> string \<Rightarrow> string \<Rightarrow> 's \<Rightarrow> err + Deployment list"

subsection \<open>\<^verbatim>\<open>ctrl.SetControllerReference\<close>\<close>

text \<open>
  The library function, as the controller-runtime documents it: it fails when the owner
  is namespaced and the object is in another namespace (or in none), when the owner's
  kind is not registered in the scheme, and when the controller reference the object
  already has (the first one flagged \<^verbatim>\<open>Controller\<close>) is to another object; otherwise it
  sets the reference, replacing a reference to the same owner or appending a new one.
\<close>

definition ownerRefOf :: "BasicAuthenticator \<Rightarrow> OwnerReference" where
  "ownerRefOf owner =
     \<lparr>Kind = ''BasicAuthenticator'', RefName = Name owner, Controller = True\<rparr>"

definition referSameObject :: "OwnerReference \<Rightarrow> OwnerReference \<Rightarrow> bool" where
  "referSameObject a b \<longleftrightarrow> Kind a = Kind b \<and> RefName a = RefName b"

fun upsertOwnerRef :: "OwnerReference \<Rightarrow> OwnerReference list \<Rightarrow> OwnerReference list" where
  "upsertOwnerRef ref [] = [ref]"
| "upsertOwnerRef ref (x # xs) =
     (if referSameObject x ref then ref # xs else x # upsertOwnerRef ref xs)"

definition SetControllerReference ::
  "BasicAuthenticator \<Rightarrow> 'a ObjectMeta_scheme \<Rightarrow> string list \<Rightarrow> err + 'a ObjectMeta_scheme" where
  "SetControllerReference owner controlled scheme =
     (if Namespace owner \<noteq> [] \<and> Namespace controlled = [] then
        Inl (Failure ''cluster-scoped resource must not have a namespace-scoped owner'')
      else if Namespace owner \<noteq> [] \<and> Namespace owner \<noteq> Namespace controlled then
        Inl (Failure ''cross-namespace owner references are disallowed'')
      else if ''BasicAuthenticator'' \<notin> set scheme then
        Inl (Failure ''no kind is registered for the type'')
      else
        (case find Controller (OwnerReferences controlled) of
           Some existing \<Rightarrow>
             (if \<not> referSameObject existing (ownerRefOf owner) then
                Inl (Failure ''object is already owned by another controller'')
              else
                Inr (controlled\<lparr>OwnerReferences :=
                       upsertOwnerRef (ownerRefOf owner) (OwnerReferences controlled)\<rparr>))
         | None \<Rightarrow>
             Inr (controlled\<lparr>OwnerReferences :=
                    upsertOwnerRef (ownerRefOf owner) (OwnerReferences controlled)\<rparr>)))"


subsection \<open>\<^verbatim>\<open>Reconcile\<close>\<close>

text \<open>
  The function is one body of 150 lines; the model cuts it at the three places where
  the body goes on to the next dependent object, last part first. Every \<^verbatim>\<open>return\<close> of
  the source is a branch that gives the pair of \<^verbatim>\<open>ctrl.Result\<close> and error, with the
  state of the store.
\<close>

type_synonym 's outcome = "(Result \<times> err option) \<times> 's"

text \<open>Lines 143 to 149 and line 196: the loop that persists the injected deployments.\<close>

fun updateInjected :: "'s Client \<Rightarrow> Deployment list \<Rightarrow> 's \<Rightarrow> 's outcome" where
  "updateInjected c [] s = ((\<lparr>Requeue = False\<rparr>, None), s)"
| "updateInjected c (deploy # rest) s =
     (case UpdateDeployment c deploy s of
        (Inl e, s1) \<Rightarrow> ((\<lparr>Requeue = False\<rparr>, Some e), s1)
      | (Inr _, s1) \<Rightarrow> updateInjected c rest s1)"

text \<open>Lines 135 to 196: the sidecar injection, or the deployment and the status.\<close>

definition reconcileWorkload ::
  "'s BasicAuthenticatorReconciler \<Rightarrow> BasicAuthenticator \<Rightarrow> ConfigMap \<Rightarrow> string \<Rightarrow> 's
     \<Rightarrow> 's outcome" where
  "reconcileWorkload r basicAuthenticator foundConfigmap credentialName s =
     (if Type (Spec basicAuthenticator) = ''sidecar'' then
        (case Injector r basicAuthenticator (Name foundConfigmap) credentialName s of
           Inl e \<Rightarrow> ((\<lparr>Requeue = False\<rparr>, Some e), s)
         | Inr deploymentsToUpdate \<Rightarrow> updateInjected (Client r) deploymentsToUpdate s)
      else
        (let newDeployment =
               CreateNginxDeployment r basicAuthenticator (Name foundConfigmap) credentialName
         in case GetDeployment (Client r)
                   (Namespace basicAuthenticator, Name newDeployment) s of
              (Inl e, s1) \<Rightarrow>
                (if IsNotFound e then
                   (case SetControllerReference basicAuthenticator newDeployment (Scheme r) of
                      Inl e' \<Rightarrow> ((\<lparr>Requeue = False\<rparr>, Some e'), s1)
                    | Inr owned \<Rightarrow>
                        (case CreateDeployment (Client r) owned s1 of
                           (Some e', s2) \<Rightarrow> ((\<lparr>Requeue = True\<rparr>, Some e'), s2)
                         | (None, s2) \<Rightarrow> ((\<lparr>Requeue = True\<rparr>, None), s2)))
                 else ((\<lparr>Requeue = False\<rparr>, Some e), s1))
            | (Inr foundDeployment, s1) \<Rightarrow>
                (case (if DSpec newDeployment \<noteq> DSpec foundDeployment
                       then UpdateDeployment (Client r)
                              (foundDeployment\<lparr>DSpec := DSpec newDeployment\<rparr>) s1
                       else (Inr foundDeployment, s1)) of
                   (Inl e, s2) \<Rightarrow> ((\<lparr>Requeue = False\<rparr>, Some e), s2)
                 | (Inr foundDeployment', s2) \<Rightarrow>
                     (case StatusUpdate (Client r)
                             (basicAuthenticator\<lparr>Status := (Status basicAuthenticator)
                                \<lparr>ReadyReplicas :=
                                   sint (DReadyReplicas (DStatus foundDeployment'))\<rparr>\<rparr>)
                             s2 of
                        (Some e, s3) \<Rightarrow> ((\<lparr>Requeue = False\<rparr>, Some e), s3)
                      | (None, s3) \<Rightarrow> ((\<lparr>Requeue = False\<rparr>, None), s3)))))"

text \<open>Lines 106 to 133: the configmap; then the workload.\<close>

definition reconcileConfigmap ::
  "'s BasicAuthenticatorReconciler \<Rightarrow> BasicAuthenticator \<Rightarrow> string \<Rightarrow> 's \<Rightarrow> 's outcome" where
  "reconcileConfigmap r basicAuthenticator credentialName s =
     (let nginxConfig = CreateNginxConfigmap r basicAuthenticator
      in case GetConfigMap (Client r) (Namespace basicAuthenticator, Name nginxConfig) s of
           (Inl e, s1) \<Rightarrow>
             (if IsNotFound e then
                (case SetControllerReference basicAuthenticator nginxConfig (Scheme r) of
                   Inl e' \<Rightarrow> ((\<lparr>Requeue = False\<rparr>, Some e'), s1)
                 | Inr owned \<Rightarrow>
                     (case CreateConfigMap (Client r) owned s1 of
                        (Some e', s2) \<Rightarrow> ((\<lparr>Requeue = True\<rparr>, Some e'), s2)
                      | (None, s2) \<Rightarrow> ((\<lparr>Requeue = True\<rparr>, None), s2)))
              else ((\<lparr>Requeue = False\<rparr>, Some e), s1))
         | (Inr foundConfigmap, s1) \<Rightarrow>
             (if Data nginxConfig \<noteq> Data foundConfigmap then
                (case UpdateConfigMap (Client r)
                        (foundConfigmap\<lparr>Data := Data nginxConfig\<rparr>) s1 of
                   (Some e, s2) \<Rightarrow> ((\<lparr>Requeue = False\<rparr>, Some e), s2)
                 | (None, s2) \<Rightarrow>
                     reconcileWorkload r basicAuthenticator
                       (foundConfigmap\<lparr>Data := Data nginxConfig\<rparr>) credentialName s2)
              else reconcileWorkload r basicAuthenticator foundConfigmap credentialName s1))"

text \<open>Lines 67 to 104: the credential secret; then the configmap.\<close>

definition reconcileCredentials ::
  "'s BasicAuthenticatorReconciler \<Rightarrow> NamespacedName \<Rightarrow> BasicAuthenticator \<Rightarrow> 's
     \<Rightarrow> 's outcome" where
  "reconcileCredentials r req basicAuthenticator s =
     (let credentialName = CredentialsSecretRef (Spec basicAuthenticator)
      in if credentialName = [] then
           (let newSecret = CreateCredentials r basicAuthenticator
            in case GetSecret (Client r) (Namespace newSecret, Name newSecret) s of
                 (Inl e, s1) \<Rightarrow>
                   (if IsNotFound e then
                      (case CreateSecret (Client r) newSecret s1 of
                         (Some e', s2) \<Rightarrow> ((\<lparr>Requeue = True\<rparr>, Some e'), s2)
                       | (None, s2) \<Rightarrow>
                           (case UpdateBasicAuthenticator (Client r)
                                   (basicAuthenticator\<lparr>Spec := (Spec basicAuthenticator)
                                      \<lparr>CredentialsSecretRef := Name newSecret\<rparr>\<rparr>) s2 of
                              (Some e', s3) \<Rightarrow> ((\<lparr>Requeue = False\<rparr>, Some e'), s3)
                            | (None, s3) \<Rightarrow>
                                (case GetBasicAuthenticator (Client r) req s3 of
                                   (Inl e', s4) \<Rightarrow> ((\<lparr>Requeue = False\<rparr>, Some e'), s4)
                                 | (Inr refetched, s4) \<Rightarrow>
                                     reconcileConfigmap r refetched (Name newSecret) s4)))
                    else ((\<lparr>Requeue = True\<rparr>, None), s1))
               | (Inr _, s1) \<Rightarrow> ((\<lparr>Requeue = True\<rparr>, None), s1))
         else
           (case GetSecret (Client r) (Namespace basicAuthenticator, credentialName) s of
              (Inl e, s1) \<Rightarrow> ((\<lparr>Requeue = False\<rparr>, Some e), s1)
            | (Inr _, s1) \<Rightarrow> reconcileConfigmap r basicAuthenticator credentialName s1))"

text \<open>Lines 47 to 65: the two fetches of the resource; then the credentials.\<close>

definition Reconcile ::
  "'s BasicAuthenticatorReconciler \<Rightarrow> NamespacedName \<Rightarrow> 's \<Rightarrow> 's outcome" where
  "Reconcile r req s =
     (case GetBasicAuthenticator (Client r) req s of
        (Inl e, s1) \<Rightarrow>
          (if IsNotFound e then ((\<lparr>Requeue = False\<rparr>, None), s1)
           else ((\<lparr>Requeue = False\<rparr>, Some e), s1))
      | (Inr _, s1) \<Rightarrow>
          (case GetBasicAuthenticator (Client r) req s1 of
             (Inl e, s2) \<Rightarrow> ((\<lparr>Requeue = False\<rparr>, Some e), s2)
           | (Inr basicAuthenticator, s2) \<Rightarrow> reconcileCredentials r req basicAuthenticator s2))"

section \<open>Observing the calls of an invocation\<close>

text \<open>
  What an invocation asks of the store is observed the way a test observes it, through
  a client that records every call before passing it on. The calls carry their
  arguments; \<open>Kind\<close>-specific reads are told apart by the kind.
\<close>

datatype kind = KBasicAuthenticator | KSecret | KConfigMap | KDeployment

datatype call =
    CallGet kind NamespacedName
  | CallCreateSecret Secret
  | CallCreateConfigMap ConfigMap
  | CallCreateDeployment Deployment
  | CallUpdateBasicAuthenticator BasicAuthenticator
  | CallUpdateConfigMap ConfigMap
  | CallUpdateDeployment Deployment
  | CallStatusUpdate BasicAuthenticator

definition recording :: "call \<Rightarrow> ('s \<Rightarrow> 'a \<times> 's) \<Rightarrow> 's \<times> call list \<Rightarrow> 'a \<times> 's \<times> call list" where
  "recording c f st = (case f (fst st) of (x, s') \<Rightarrow> (x, (s', snd st @ [c])))"

definition spy :: "'s Client \<Rightarrow> ('s \<times> call list) Client" where
  "spy c =
     \<lparr>GetBasicAuthenticator = (\<lambda>nn. recording (CallGet KBasicAuthenticator nn) (GetBasicAuthenticator c nn)),
      GetSecret = (\<lambda>nn. recording (CallGet KSecret nn) (GetSecret c nn)),
      GetConfigMap = (\<lambda>nn. recording (CallGet KConfigMap nn) (GetConfigMap c nn)),
      GetDeployment = (\<lambda>nn. recording (CallGet KDeployment nn) (GetDeployment c nn)),
      CreateSecret = (\<lambda>x. recording (CallCreateSecret x) (CreateSecret c x)),
      CreateConfigMap = (\<lambda>x. recording (CallCreateConfigMap x) (CreateConfigMap c x)),
      CreateDeployment = (\<lambda>x. recording (CallCreateDeployment x) (CreateDeployment c x)),
      UpdateBasicAuthenticator =
        (\<lambda>x. recording (CallUpdateBasicAuthenticator x) (UpdateBasicAuthenticator c x)),
      UpdateConfigMap = (\<lambda>x. recording (CallUpdateConfigMap x) (UpdateConfigMap c x)),
      UpdateDeployment = (\<lambda>x. recording (CallUpdateDeployment x) (UpdateDeployment c x)),
      StatusUpdate = (\<lambda>x. recording (CallStatusUpdate x) (StatusUpdate c x))\<rparr>"

definition spying :: "'s BasicAuthenticatorReconciler \<Rightarrow> ('s \<times> call list) BasicAuthenticatorReconciler" where
  "spying r =
     \<lparr>Client = spy (Client r),
      Scheme = Scheme r,
      CreateCredentials = CreateCredentials r,
      CreateNginxConfigmap = CreateNginxConfigmap r,
      CreateNginxDeployment = CreateNginxDeployment r,
      Injector = (\<lambda>b cm cred st. Injector r b cm cred (fst st))\<rparr>"



text \<open>
  The calls of one invocation, in order, and the ones that write; and the calls of
  each part of the body, started on its own.
\<close>

definition injectedCalls :: "'s Client \<Rightarrow> Deployment list \<Rightarrow> 's \<Rightarrow> call list" where
  "injectedCalls c ds s = snd (snd (updateInjected (spy c) ds (s, [])))"

definition workloadCalls ::
  "'s BasicAuthenticatorReconciler \<Rightarrow> BasicAuthenticator \<Rightarrow> ConfigMap \<Rightarrow> string \<Rightarrow> 's
     \<Rightarrow> call list" where
  "workloadCalls r b cm cred s = snd (snd (reconcileWorkload (spying r) b cm cred (s, [])))"

definition configmapCalls ::
  "'s BasicAuthenticatorReconciler \<Rightarrow> BasicAuthenticator \<Rightarrow> string \<Rightarrow> 's \<Rightarrow> call list" where
  "configmapCalls r b cred s = snd (snd (reconcileConfigmap (spying r) b cred (s, [])))"

definition credentialsCalls ::
  "'s BasicAuthenticatorReconciler \<Rightarrow> NamespacedName \<Rightarrow> BasicAuthenticator \<Rightarrow> 's
     \<Rightarrow> call list" where
  "credentialsCalls r req b s = snd (snd (reconcileCredentials (spying r) req b (s, [])))"

definition calls :: "'s BasicAuthenticatorReconciler \<Rightarrow> NamespacedName \<Rightarrow> 's \<Rightarrow> call list" where
  "calls r req s = snd (snd (Reconcile (spying r) req (s, [])))"

fun isWrite :: "call \<Rightarrow> bool" where
  "isWrite (CallGet _ _) = False"
| "isWrite _ = True"

definition writes :: "'s BasicAuthenticatorReconciler \<Rightarrow> NamespacedName \<Rightarrow> 's \<Rightarrow> call list" where
  "writes r req s = filter isWrite (calls r req s)"

text \<open>
  The calls that create the credential secret or store the reference to it (the client
  is never asked to update a secret), and the calls that create the config artifact or
  the deployment.
\<close>

fun isCredentialWrite :: "call \<Rightarrow> bool" where
  "isCredentialWrite (CallCreateSecret _) = True"
| "isCredentialWrite (CallUpdateBasicAuthenticator _) = True"
| "isCredentialWrite _ = False"

fun isArtifactCreate :: "call \<Rightarrow> bool" where
  "isArtifactCreate (CallCreateConfigMap _) = True"
| "isArtifactCreate (CallCreateDeployment _) = True"
| "isArtifactCreate _ = False"

text \<open>A list of calls in which a create of an artifact, if there is one, is the last call.\<close>

fun createEndsCalls :: "call list \<Rightarrow> bool" where
  "createEndsCalls [] = True"
| "createEndsCalls (x # xs) = ((isArtifactCreate x \<longrightarrow> xs = []) \<and> createEndsCalls xs)"

text \<open>
  What a call says of the resource \<open>b\<close> held in memory: a status update carries the
  spec of \<open>b\<close>; a created artifact is owned by \<open>b\<close>.
\<close>

fun statusCarriesSpec :: "BasicAuthenticator \<Rightarrow> call \<Rightarrow> bool" where
  "statusCarriesSpec b (CallStatusUpdate b') = (Spec b' = Spec b)"
| "statusCarriesSpec b _ = True"

fun statusNotSidecar :: "call \<Rightarrow> bool" where
  "statusNotSidecar (CallStatusUpdate b') = (Type (Spec b') \<noteq> ''sidecar'')"
| "statusNotSidecar _ = True"

fun artifactOwned :: "string \<Rightarrow> call \<Rightarrow> bool" where
  "artifactOwned owner (CallCreateConfigMap cm) =
     (\<lparr>Kind = ''BasicAuthenticator'', RefName = owner, Controller = True\<rparr>
        \<in> set (OwnerReferences cm))"
| "artifactOwned owner (CallCreateDeployment d) =
     (\<lparr>Kind = ''BasicAuthenticator'', RefName = owner, Controller = True\<rparr>
        \<in> set (OwnerReferences d))"
| "artifactOwned owner _ = True"



fun isStatusUpdate :: "call \<Rightarrow> bool" where
  "isStatusUpdate (CallStatusUpdate _) = True"
| "isStatusUpdate _ = False"

fun isUpdateDeployment :: "call \<Rightarrow> bool" where
  "isUpdateDeployment (CallUpdateDeployment _) = True"
| "isUpdateDeployment _ = False"

section \<open>An in-memory store\<close>

text \<open>
  The resource store is an external collaborator, of which the controller file has
  only the calls. This store follows the contract of the specification's interface
  table: \<open>get\<close> is a point read that reports absence; \<open>create\<close> fails with
  \<open>AlreadyExists\<close> if the object is present; \<open>update\<close> is conditioned on the version and
  fails with \<open>Conflict\<close> on a stale one; \<open>updateStatus\<close> is a status-only write with the
  same conflict semantics. Objects of a kind are kept in a list, found by namespace
  and name.
\<close>

record Store =
  basicAuthenticators :: "BasicAuthenticator list"
  secrets :: "Secret list"
  configMaps :: "ConfigMap list"
  deployments :: "Deployment list"

definition keyOf :: "'a ObjectMeta_scheme \<Rightarrow> NamespacedName" where
  "keyOf obj = (Namespace obj, Name obj)"

definition storeGet :: "'a ObjectMeta_scheme list \<Rightarrow> NamespacedName \<Rightarrow> err + 'a ObjectMeta_scheme" where
  "storeGet objs nn =
     (case find (\<lambda>obj. keyOf obj = nn) objs of None \<Rightarrow> Inl NotFound | Some obj \<Rightarrow> Inr obj)"

definition storeCreate ::
  "'a ObjectMeta_scheme list \<Rightarrow> 'a ObjectMeta_scheme \<Rightarrow> err option \<times> 'a ObjectMeta_scheme list" where
  "storeCreate objs obj =
     (case find (\<lambda>old. keyOf old = keyOf obj) objs of
        Some _ \<Rightarrow> (Some AlreadyExists, objs)
      | None \<Rightarrow> (None, objs @ [obj\<lparr>ResourceVersion := 1\<rparr>]))"

definition storeUpdate ::
  "'a ObjectMeta_scheme list \<Rightarrow> 'a ObjectMeta_scheme
     \<Rightarrow> (err + 'a ObjectMeta_scheme) \<times> 'a ObjectMeta_scheme list" where
  "storeUpdate objs obj =
     (case find (\<lambda>old. keyOf old = keyOf obj) objs of
        None \<Rightarrow> (Inl NotFound, objs)
      | Some old \<Rightarrow>
          (if ResourceVersion obj \<noteq> ResourceVersion old then (Inl Conflict, objs)
           else (let new = obj\<lparr>ResourceVersion := Suc (ResourceVersion old)\<rparr>
                 in (Inr new, map (\<lambda>x. if keyOf x = keyOf obj then new else x) objs))))"

definition storeUpdateStatus ::
  "BasicAuthenticator list \<Rightarrow> BasicAuthenticator \<Rightarrow> err option \<times> BasicAuthenticator list" where
  "storeUpdateStatus objs obj =
     (case find (\<lambda>old. keyOf old = keyOf obj) objs of
        None \<Rightarrow> (Some NotFound, objs)
      | Some old \<Rightarrow>
          (if ResourceVersion obj \<noteq> ResourceVersion old then (Some Conflict, objs)
           else (None, map (\<lambda>x. if keyOf x = keyOf obj
                                then x\<lparr>ResourceVersion := Suc (ResourceVersion old),
                                       Status := Status obj\<rparr>
                                else x) objs)))"

definition errorOf :: "err + 'a \<Rightarrow> err option" where
  "errorOf x = (case x of Inl e \<Rightarrow> Some e | Inr _ \<Rightarrow> None)"

definition memClient :: "Store Client" where
  "memClient =
     \<lparr>GetBasicAuthenticator = (\<lambda>nn s. (storeGet (basicAuthenticators s) nn, s)),
      GetSecret = (\<lambda>nn s. (storeGet (secrets s) nn, s)),
      GetConfigMap = (\<lambda>nn s. (storeGet (configMaps s) nn, s)),
      GetDeployment = (\<lambda>nn s. (storeGet (deployments s) nn, s)),
      CreateSecret = (\<lambda>x s. case storeCreate (secrets s) x of
                                 (e, objs) \<Rightarrow> (e, s\<lparr>secrets := objs\<rparr>)),
      CreateConfigMap = (\<lambda>x s. case storeCreate (configMaps s) x of
                                 (e, objs) \<Rightarrow> (e, s\<lparr>configMaps := objs\<rparr>)),
      CreateDeployment = (\<lambda>x s. case storeCreate (deployments s) x of
                                 (e, objs) \<Rightarrow> (e, s\<lparr>deployments := objs\<rparr>)),
      UpdateBasicAuthenticator =
        (\<lambda>x s. case storeUpdate (basicAuthenticators s) x of
                  (res, objs) \<Rightarrow> (errorOf res, s\<lparr>basicAuthenticators := objs\<rparr>)),
      UpdateConfigMap = (\<lambda>x s. case storeUpdate (configMaps s) x of
                                 (res, objs) \<Rightarrow> (errorOf res, s\<lparr>configMaps := objs\<rparr>)),
      UpdateDeployment = (\<lambda>x s. case storeUpdate (deployments s) x of
                                  (res, objs) \<Rightarrow> (res, s\<lparr>deployments := objs\<rparr>)),
      StatusUpdate = (\<lambda>x s. case storeUpdateStatus (basicAuthenticators s) x of
                               (e, objs) \<Rightarrow> (e, s\<lparr>basicAuthenticators := objs\<rparr>))\<rparr>"

text \<open>
  What the store holds of the resources' specs, by identity; and the store after a
  number of invocations for the same request, one after the other.
\<close>

definition specs :: "Store \<Rightarrow> (NamespacedName \<times> BasicAuthenticatorSpec) list" where
  "specs s = map (\<lambda>b. (keyOf b, Spec b)) (basicAuthenticators s)"

definition reconcileTimes ::
  "nat \<Rightarrow> 's BasicAuthenticatorReconciler \<Rightarrow> NamespacedName \<Rightarrow> 's \<Rightarrow> 's" where
  "reconcileTimes n r req s = ((\<lambda>s'. snd (Reconcile r req s')) ^^ n) s"

text \<open>
  The deployment controller, an external actor, reporting the ready replicas of the
  deployments.
\<close>

definition reportReady :: "32 word \<Rightarrow> Store \<Rightarrow> Store" where
  "reportReady n s =
     s\<lparr>deployments := map (\<lambda>d. d\<lparr>DStatus := \<lparr>DReadyReplicas = n\<rparr>\<rparr>) (deployments s)\<rparr>"

section \<open>The helper methods\<close>

text \<open>
  Modelled from the spec: \<^verbatim>\<open>CreateCredentials\<close>, defined outside the controller file. The
  specification has it generate new credential material for a secret named
  deterministically from the resource, the generation being a black box that produces
  opaque material, and has the secret that the controller creates owned by the
  resource (sections 3 and 8); \<^verbatim>\<open>Reconcile\<close> passes the secret to \<^verbatim>\<open>Create\<close> as this method
  returns it, so the method is where the owner is set. The secret is in the namespace
  of the resource, as the lookup of line 72 expects.
\<close>

definition createCredentials :: "BasicAuthenticator \<Rightarrow> Secret" where
  "createCredentials b =
     \<lparr>Name = Name b @ ''-credentials'', Namespace = Namespace b, ResourceVersion = 0,
      OwnerReferences = [ownerRefOf b],
      SecretData = [(''username'', ''generated''), (''password'', ''generated'')]\<rparr>"

text \<open>
  Modelled from the spec: \<^verbatim>\<open>CreateNginxConfigmap\<close>, defined outside the controller file.
  The content of the artifact is a pure function of the spec fields of the resource,
  and its name is deterministic.
\<close>

definition createNginxConfigmap :: "BasicAuthenticator \<Rightarrow> ConfigMap" where
  "createNginxConfigmap b =
     \<lparr>Name = Name b @ ''-nginx-conf'', Namespace = Namespace b, ResourceVersion = 0,
      OwnerReferences = [],
      Data = (''type'', Type (Spec b)) # Params (Spec b)\<rparr>"

text \<open>
  Modelled from the spec: \<^verbatim>\<open>CreateNginxDeployment\<close>, defined outside the controller
  file. The desired workload is derived from the spec of the resource, the credential
  name and the name of the config artifact, under a deterministic name; the fields an
  API server would default are left unset.
\<close>

definition proxyContainer :: "string \<Rightarrow> string \<Rightarrow> Container" where
  "proxyContainer configMapName credentialName =
     \<lparr>ContainerName = ''nginx-auth'', Image = ''nginx'',
      VolumeMounts = [configMapName, credentialName]\<rparr>"

definition createNginxDeployment :: "BasicAuthenticator \<Rightarrow> string \<Rightarrow> string \<Rightarrow> Deployment" where
  "createNginxDeployment b configMapName credentialName =
     \<lparr>Name = Name b @ ''-nginx'', Namespace = Namespace b, ResourceVersion = 0,
      OwnerReferences = [],
      DSpec = \<lparr>Replicas = Some 1, Selector = [(''app'', Name b)],
               Containers = [proxyContainer configMapName credentialName],
               Volumes = [configMapName, credentialName],
               Strategy = [], RevisionHistoryLimit = None, ProgressDeadlineSeconds = None\<rparr>,
      DStatus = \<lparr>DReadyReplicas = 0\<rparr>\<rparr>"

text \<open>
  Modelled from the spec: \<^verbatim>\<open>Injector\<close>, defined outside the controller file. It
  enumerates the workloads that match the selection criteria of the resource (here:
  the deployments of its namespace whose selector has every pair of \<open>Params\<close>) and,
  for each one whose pod template does not already contain the proxy container
  (recognised by its name), adds the container and the volumes it requires; it returns
  the mutated workloads to the caller, which persists each.
\<close>

definition matches :: "BasicAuthenticator \<Rightarrow> Deployment \<Rightarrow> bool" where
  "matches b d \<longleftrightarrow>
     Namespace d = Namespace b \<and> list_all (\<lambda>kv. kv \<in> set (Selector (DSpec d))) (Params (Spec b))"

definition injected :: "Deployment \<Rightarrow> bool" where
  "injected d \<longleftrightarrow> ''nginx-auth'' \<in> set (map ContainerName (Containers (DSpec d)))"

definition inject :: "string \<Rightarrow> string \<Rightarrow> Deployment \<Rightarrow> Deployment" where
  "inject configMapName credentialName d =
     d\<lparr>DSpec := (DSpec d)
          \<lparr>Containers := Containers (DSpec d) @ [proxyContainer configMapName credentialName],
           Volumes := Volumes (DSpec d) @ [configMapName, credentialName]\<rparr>\<rparr>"

definition injector :: "BasicAuthenticator \<Rightarrow> string \<Rightarrow> string \<Rightarrow> Store \<Rightarrow> err + Deployment list" where
  "injector b configMapName credentialName s =
     Inr (map (inject configMapName credentialName)
            (filter (\<lambda>d. matches b d \<and> \<not> injected d) (deployments s)))"

text \<open>The reconciler over the in-memory store, with these methods.\<close>

definition memReconciler :: "Store BasicAuthenticatorReconciler" where
  "memReconciler =
     \<lparr>Client = memClient,
      Scheme = [''BasicAuthenticator'', ''Deployment'', ''Secret'', ''ConfigMap''],
      CreateCredentials = createCredentials,
      CreateNginxConfigmap = createNginxConfigmap,
      CreateNginxDeployment = createNginxDeployment,
      Injector = injector\<rparr>"

section \<open>Stores and resources for the scenarios\<close>

text \<open>
  The defaults an API server fills into the spec of a deployment that leaves them
  unset: one replica, the rolling-update strategy, ten revisions of history and a
  progress deadline of 600 seconds. A stored deployment differs from the derived one
  only in store-populated fields when it is the derived one with these defaults.
\<close>

definition setDefaults :: "DeploymentSpec \<Rightarrow> DeploymentSpec" where
  "setDefaults sp =
     sp\<lparr>Replicas := (case Replicas sp of None \<Rightarrow> Some 1 | Some n \<Rightarrow> Some n),
        Strategy := (if Strategy sp = [] then ''RollingUpdate'' else Strategy sp),
        RevisionHistoryLimit :=
          (case RevisionHistoryLimit sp of None \<Rightarrow> Some 10 | Some n \<Rightarrow> Some n),
        ProgressDeadlineSeconds :=
          (case ProgressDeadlineSeconds sp of None \<Rightarrow> Some 600 | Some n \<Rightarrow> Some n)\<rparr>"

text \<open>A standalone resource \<open>demo\<close> in namespace \<open>ns\<close>, with no credentials yet.\<close>

definition demoReq :: NamespacedName where
  "demoReq = (''ns'', ''demo'')"

definition demo :: BasicAuthenticator where
  "demo =
     \<lparr>Name = ''demo'', Namespace = ''ns'', ResourceVersion = 1, OwnerReferences = [],
      Spec = \<lparr>Type = ''standalone'', CredentialsSecretRef = [],
               Params = [(''port'', ''8080'')]\<rparr>,
      Status = \<lparr>ReadyReplicas = 0\<rparr>\<rparr>"

definition emptyStore :: Store where
  "emptyStore = \<lparr>basicAuthenticators = [], secrets = [], configMaps = [], deployments = []\<rparr>"

definition demoStore :: Store where
  "demoStore = emptyStore\<lparr>basicAuthenticators := [demo]\<rparr>"

text \<open>The same resource once its credentials are referenced, and its dependents.\<close>

definition demoRef :: BasicAuthenticator where
  "demoRef = demo\<lparr>ResourceVersion := 2,
                  Spec := (Spec demo)\<lparr>CredentialsSecretRef := ''demo-credentials''\<rparr>\<rparr>"

definition demoSecret :: Secret where
  "demoSecret = (createCredentials demo)\<lparr>ResourceVersion := 1\<rparr>"

definition demoConfigMap :: ConfigMap where
  "demoConfigMap =
     (createNginxConfigmap demoRef)\<lparr>ResourceVersion := 1, OwnerReferences := [ownerRefOf demo]\<rparr>"

definition demoDeployment :: Deployment where
  "demoDeployment =
     (createNginxDeployment demoRef ''demo-nginx-conf'' ''demo-credentials'')
       \<lparr>ResourceVersion := 1, OwnerReferences := [ownerRefOf demo],
        DStatus := \<lparr>DReadyReplicas = 3\<rparr>\<rparr>"

text \<open>
  The store in which everything for \<open>demo\<close> exists as derived, the deployment
  reporting three ready replicas.
\<close>

definition convergedStore :: Store where
  "convergedStore =
     \<lparr>basicAuthenticators = [demoRef], secrets = [demoSecret],
      configMaps = [demoConfigMap], deployments = [demoDeployment]\<rparr>"

text \<open>The same store, the deployment's spec with the server's defaults filled in.\<close>

definition defaultedStore :: Store where
  "defaultedStore =
     convergedStore\<lparr>deployments := [demoDeployment\<lparr>DSpec := setDefaults (DSpec demoDeployment)\<rparr>]\<rparr>"

text \<open>The resource references a secret that is not in the store.\<close>

definition missingSecretStore :: Store where
  "missingSecretStore = emptyStore\<lparr>basicAuthenticators := [demoRef]\<rparr>"

text \<open>The resource has no reference yet, and the secret of the derived name exists.\<close>

definition existingSecretStore :: Store where
  "existingSecretStore = demoStore\<lparr>secrets := [demoSecret]\<rparr>"

text \<open>
  A sidecar resource selecting the workloads labelled \<open>app = web\<close>, its secret and
  config artifact in place, and one such workload, not yet injected.
\<close>

definition sidecarDemo :: BasicAuthenticator where
  "sidecarDemo =
     \<lparr>Name = ''demo'', Namespace = ''ns'', ResourceVersion = 2, OwnerReferences = [],
      Spec = \<lparr>Type = ''sidecar'', CredentialsSecretRef = ''demo-credentials'',
               Params = [(''app'', ''web'')]\<rparr>,
      Status = \<lparr>ReadyReplicas = 0\<rparr>\<rparr>"

definition web :: Deployment where
  "web =
     \<lparr>Name = ''web'', Namespace = ''ns'', ResourceVersion = 7, OwnerReferences = [],
      DSpec = \<lparr>Replicas = Some 2, Selector = [(''app'', ''web'')],
               Containers = [\<lparr>ContainerName = ''web'', Image = ''web:1'', VolumeMounts = []\<rparr>],
               Volumes = [], Strategy = ''RollingUpdate'', RevisionHistoryLimit = Some 10,
               ProgressDeadlineSeconds = Some 600\<rparr>,
      DStatus = \<lparr>DReadyReplicas = 2\<rparr>\<rparr>"

definition sidecarStore :: Store where
  "sidecarStore =
     \<lparr>basicAuthenticators = [sidecarDemo], secrets = [demoSecret],
      configMaps = [(createNginxConfigmap sidecarDemo)
                      \<lparr>ResourceVersion := 1, OwnerReferences := [ownerRefOf sidecarDemo]\<rparr>],
      deployments = [web]\<rparr>"

text \<open>
  A copy of the resource held in memory whose spec is not the stored one (another
  port), at the stored version.
\<close>

definition staleDemo :: BasicAuthenticator where
  "staleDemo = demoRef\<lparr>Spec := (Spec demoRef)\<lparr>Params := [(''port'', ''9090'')]\<rparr>\<rparr>"

text \<open>
  The store after the first invocation for \<open>demo\<close>, and after the second, the deployment
  not yet ready.
\<close>

definition afterFirst :: Store where
  "afterFirst =
     \<lparr>basicAuthenticators = [demoRef], secrets = [demoSecret],
      configMaps = [demoConfigMap], deployments = []\<rparr>"

definition afterSecond :: Store where
  "afterSecond =
     afterFirst\<lparr>deployments := [demoDeployment\<lparr>DStatus := \<lparr>DReadyReplicas = 0\<rparr>\<rparr>]\<rparr>"

text \<open>The converged store once the status has been written.\<close>

definition reportedStore :: Store where
  "reportedStore =
     convergedStore\<lparr>basicAuthenticators :=
       [demoRef\<lparr>ResourceVersion := 3, Status := \<lparr>ReadyReplicas = 3\<rparr>\<rparr>]\<rparr>"

text \<open>The sidecar store once the workload has been injected.\<close>

definition injectedStore :: Store where
  "injectedStore =
     sidecarStore\<lparr>deployments :=
       [(inject ''demo-nginx-conf'' ''demo-credentials'' web)\<lparr>ResourceVersion := 8\<rparr>]\<rparr>"


text \<open>A reconciler whose client fails every lookup of a secret with the given error.\<close>

definition withSecretLookupError ::
  "err \<Rightarrow> 's BasicAuthenticatorReconciler \<Rightarrow> 's BasicAuthenticatorReconciler" where
  "withSecretLookupError e r = r\<lparr>Client := (Client r)\<lparr>GetSecret := (\<lambda>nn s. (Inl e, s))\<rparr>\<rparr>"

section \<open>The recording client is faithful, and what it records\<close>

lemma spy_sel [simp]:
  "GetBasicAuthenticator (spy c) nn = recording (CallGet KBasicAuthenticator nn) (GetBasicAuthenticator c nn)"
  "GetSecret (spy c) nn = recording (CallGet KSecret nn) (GetSecret c nn)"
  "GetConfigMap (spy c) nn = recording (CallGet KConfigMap nn) (GetConfigMap c nn)"
  "GetDeployment (spy c) nn = recording (CallGet KDeployment nn) (GetDeployment c nn)"
  "CreateSecret (spy c) x1 = recording (CallCreateSecret x1) (CreateSecret c x1)"
  "CreateConfigMap (spy c) x2 = recording (CallCreateConfigMap x2) (CreateConfigMap c x2)"
  "CreateDeployment (spy c) x3 = recording (CallCreateDeployment x3) (CreateDeployment c x3)"
  "UpdateBasicAuthenticator (spy c) x4 = recording (CallUpdateBasicAuthenticator x4) (UpdateBasicAuthenticator c x4)"
  "UpdateConfigMap (spy c) x5 = recording (CallUpdateConfigMap x5) (UpdateConfigMap c x5)"
  "UpdateDeployment (spy c) x6 = recording (CallUpdateDeployment x6) (UpdateDeployment c x6)"
  "StatusUpdate (spy c) x4 = recording (CallStatusUpdate x4) (StatusUpdate c x4)"
  by (simp_all add: spy_def)

lemma spying_sel [simp]:
  "Client (spying r) = spy (Client r)"
  "Scheme (spying r) = Scheme r"
  "CreateCredentials (spying r) = CreateCredentials r"
  "CreateNginxConfigmap (spying r) = CreateNginxConfigmap r"
  "CreateNginxDeployment (spying r) = CreateNginxDeployment r"
  "Injector (spying r) b cm cred st = Injector r b cm cred (fst st)"
  by (simp_all add: spying_def)

lemma recording_eq:
  "recording c f (s, tr) = (case f s of (x, s') \<Rightarrow> (x, (s', tr @ [c])))"
  by (simp add: recording_def)

lemma updateInjected_spy_aux:
  "updateInjected (spy c) ds (s, tr) =
     (fst (updateInjected c ds s), (snd (updateInjected c ds s), tr @ snd (snd (updateInjected (spy c) ds (s, [])))))"
proof (induction ds arbitrary: s tr)
  case Nil
  show ?case by simp
next
  case (Cons d ds)
  show ?case
    apply (simp add: recording_eq split: prod.splits sum.splits)
    apply (intro allI impI conjI)
    apply (subst Cons.IH)
    apply (subst (2) Cons.IH)
    apply simp
    done
qed

lemma updateInjected_spy:
  "updateInjected (spy c) ds (s, tr) =
     (fst (updateInjected c ds s), (snd (updateInjected c ds s), tr @ injectedCalls c ds s))"
  unfolding injectedCalls_def by (rule updateInjected_spy_aux)

lemma injectedCalls_Nil: "injectedCalls c [] s = []"
  by (simp add: injectedCalls_def)

lemma injectedCalls_Cons:
  "injectedCalls c (d # ds) s =
     CallUpdateDeployment d #
       (case UpdateDeployment c d s of (Inl e, s1) \<Rightarrow> [] | (Inr _, s1) \<Rightarrow> injectedCalls c ds s1)"
  unfolding injectedCalls_def
  by (auto simp: recording_eq updateInjected_spy [where tr = "[x]" for x] injectedCalls_def
      split: prod.splits sum.splits)

lemma workload_spy:
  "reconcileWorkload (spying r) b cm cred (s, tr) =
     (fst (reconcileWorkload r b cm cred s),
      (snd (reconcileWorkload r b cm cred s), tr @ workloadCalls r b cm cred s))"
  unfolding workloadCalls_def reconcileWorkload_def
  by (auto simp: recording_eq Let_def updateInjected_spy split: prod.splits sum.splits option.splits)

lemma workloadCalls_eq:
  "workloadCalls r b cm cred s =
     (if Type (Spec b) = ''sidecar'' then
        (case Injector r b (Name cm) cred s of
           Inl e \<Rightarrow> []
         | Inr ds \<Rightarrow> injectedCalls (Client r) ds s)
      else
        (let nd = CreateNginxDeployment r b (Name cm) cred
         in CallGet KDeployment (Namespace b, Name nd) #
            (case GetDeployment (Client r) (Namespace b, Name nd) s of
               (Inl e, s1) \<Rightarrow>
                 (if IsNotFound e then
                    (case SetControllerReference b nd (Scheme r) of
                       Inl e' \<Rightarrow> []
                     | Inr owned \<Rightarrow> [CallCreateDeployment owned])
                  else [])
             | (Inr fd, s1) \<Rightarrow>
                 (if DSpec nd \<noteq> DSpec fd then
                    CallUpdateDeployment (fd\<lparr>DSpec := DSpec nd\<rparr>) #
                    (case UpdateDeployment (Client r) (fd\<lparr>DSpec := DSpec nd\<rparr>) s1 of
                       (Inl e, s2) \<Rightarrow> []
                     | (Inr fd', s2) \<Rightarrow>
                         [CallStatusUpdate (b\<lparr>Status := (Status b)
                            \<lparr>ReadyReplicas := sint (DReadyReplicas (DStatus fd'))\<rparr>\<rparr>)])
                  else
                    [CallStatusUpdate (b\<lparr>Status := (Status b)
                       \<lparr>ReadyReplicas := sint (DReadyReplicas (DStatus fd))\<rparr>\<rparr>)]))))"
  unfolding workloadCalls_def reconcileWorkload_def
  by (auto simp: recording_eq Let_def updateInjected_spy split: prod.splits sum.splits option.splits)

lemma configmap_spy:
  "reconcileConfigmap (spying r) b cred (s, tr) =
     (fst (reconcileConfigmap r b cred s),
      (snd (reconcileConfigmap r b cred s), tr @ configmapCalls r b cred s))"
  unfolding configmapCalls_def reconcileConfigmap_def
  by (auto simp: recording_eq Let_def workload_spy split: prod.splits sum.splits option.splits)

lemma configmapCalls_eq:
  "configmapCalls r b cred s =
     (let nc = CreateNginxConfigmap r b
      in CallGet KConfigMap (Namespace b, Name nc) #
         (case GetConfigMap (Client r) (Namespace b, Name nc) s of
            (Inl e, s1) \<Rightarrow>
              (if IsNotFound e then
                 (case SetControllerReference b nc (Scheme r) of
                    Inl e' \<Rightarrow> []
                  | Inr owned \<Rightarrow> [CallCreateConfigMap owned])
               else [])
          | (Inr fc, s1) \<Rightarrow>
              (if Data nc \<noteq> Data fc then
                 CallUpdateConfigMap (fc\<lparr>Data := Data nc\<rparr>) #
                 (case UpdateConfigMap (Client r) (fc\<lparr>Data := Data nc\<rparr>) s1 of
                    (Some e, s2) \<Rightarrow> []
                  | (None, s2) \<Rightarrow> workloadCalls r b (fc\<lparr>Data := Data nc\<rparr>) cred s2)
               else workloadCalls r b fc cred s1)))"
  unfolding configmapCalls_def reconcileConfigmap_def
  by (auto simp: recording_eq Let_def workload_spy split: prod.splits sum.splits option.splits)

lemma credentials_spy:
  "reconcileCredentials (spying r) req b (s, tr) =
     (fst (reconcileCredentials r req b s),
      (snd (reconcileCredentials r req b s), tr @ credentialsCalls r req b s))"
  unfolding credentialsCalls_def reconcileCredentials_def
  by (auto simp: recording_eq Let_def configmap_spy split: prod.splits sum.splits option.splits)

lemma credentialsCalls_eq:
  "credentialsCalls r req b s =
     (if CredentialsSecretRef (Spec b) = [] then
        (let ns = CreateCredentials r b
         in CallGet KSecret (Namespace ns, Name ns) #
            (case GetSecret (Client r) (Namespace ns, Name ns) s of
               (Inl e, s1) \<Rightarrow>
                 (if IsNotFound e then
                    CallCreateSecret ns #
                    (case CreateSecret (Client r) ns s1 of
                       (Some e', s2) \<Rightarrow> []
                     | (None, s2) \<Rightarrow>
                         CallUpdateBasicAuthenticator
                           (b\<lparr>Spec := (Spec b)\<lparr>CredentialsSecretRef := Name ns\<rparr>\<rparr>) #
                         (case UpdateBasicAuthenticator (Client r)
                                 (b\<lparr>Spec := (Spec b)\<lparr>CredentialsSecretRef := Name ns\<rparr>\<rparr>) s2 of
                            (Some e', s3) \<Rightarrow> []
                          | (None, s3) \<Rightarrow>
                              CallGet KBasicAuthenticator req #
                              (case GetBasicAuthenticator (Client r) req s3 of
                                 (Inl e', s4) \<Rightarrow> []
                               | (Inr b', s4) \<Rightarrow> configmapCalls r b' (Name ns) s4)))
                  else [])
             | (Inr _, s1) \<Rightarrow> []))
      else
        CallGet KSecret (Namespace b, CredentialsSecretRef (Spec b)) #
        (case GetSecret (Client r) (Namespace b, CredentialsSecretRef (Spec b)) s of
           (Inl e, s1) \<Rightarrow> []
         | (Inr _, s1) \<Rightarrow> configmapCalls r b (CredentialsSecretRef (Spec b)) s1))"
  unfolding credentialsCalls_def reconcileCredentials_def
  by (auto simp: recording_eq Let_def configmap_spy split: prod.splits sum.splits option.splits)

lemma Reconcile_spy:
  "Reconcile (spying r) req (s, tr) =
     (fst (Reconcile r req s), (snd (Reconcile r req s), tr @ calls r req s))"
  unfolding calls_def Reconcile_def
  by (auto simp: recording_eq Let_def credentials_spy split: prod.splits sum.splits option.splits)

lemma calls_eq:
  "calls r req s =
     CallGet KBasicAuthenticator req #
     (case GetBasicAuthenticator (Client r) req s of
        (Inl e, s1) \<Rightarrow> []
      | (Inr _, s1) \<Rightarrow>
          CallGet KBasicAuthenticator req #
          (case GetBasicAuthenticator (Client r) req s1 of
             (Inl e, s2) \<Rightarrow> []
           | (Inr b, s2) \<Rightarrow> credentialsCalls r req b s2))"
  unfolding calls_def Reconcile_def
  by (auto simp: recording_eq Let_def credentials_spy split: prod.splits sum.splits option.splits)

subsection \<open>What each part of the body may call\<close>

lemma list_all_weaken: "list_all P xs \<Longrightarrow> (\<And>x. P x \<Longrightarrow> Q x) \<Longrightarrow> list_all Q xs"
  by (simp add: list_all_iff)

lemma injectedCalls_updates: "list_all isUpdateDeployment (injectedCalls c ds s)"
  by (induction ds arbitrary: s)
     (simp_all add: injectedCalls_Nil injectedCalls_Cons split: prod.splits sum.splits)

lemma injectedCalls_all:
  "snd (fst (updateInjected c ds s)) = None \<Longrightarrow> injectedCalls c ds s = map CallUpdateDeployment ds"
  by (induction ds arbitrary: s)
     (auto simp: injectedCalls_Nil injectedCalls_Cons split: prod.splits sum.splits)


lemma injectedCalls_createEnds: "createEndsCalls (injectedCalls c ds s)"
  by (induction ds arbitrary: s)
     (simp_all add: injectedCalls_Nil injectedCalls_Cons split: prod.splits sum.splits)

lemma injectedCalls_no_create: "\<not> list_ex isArtifactCreate (injectedCalls c ds s)"
  by (induction ds arbitrary: s)
     (simp_all add: injectedCalls_Nil injectedCalls_Cons split: prod.splits sum.splits)

text \<open>No part after the credentials creates a secret or updates the resource.\<close>

lemma workloadCalls_no_credential_write:
  "list_all (\<lambda>x. \<not> isCredentialWrite x) (workloadCalls r b cm cred s)"
proof -
  have "list_all (\<lambda>x. \<not> isCredentialWrite x) (injectedCalls (Client r) ds s)" for ds
    by (rule list_all_weaken [OF injectedCalls_updates]) (case_tac x, simp_all)
  then show ?thesis
    by (simp add: workloadCalls_eq Let_def split: prod.splits sum.splits)
qed

lemma configmapCalls_no_credential_write:
  "list_all (\<lambda>x. \<not> isCredentialWrite x) (configmapCalls r b cred s)"
  by (simp add: configmapCalls_eq Let_def workloadCalls_no_credential_write
      split: prod.splits sum.splits option.splits)

text \<open>A status update carries the spec of the resource in memory, which is not a sidecar.\<close>

lemma workloadCalls_status:
  "list_all (\<lambda>x. statusCarriesSpec b x \<and> statusNotSidecar x) (workloadCalls r b cm cred s)"
proof -
  have "list_all (\<lambda>x. statusCarriesSpec b x \<and> statusNotSidecar x) (injectedCalls (Client r) ds s)" for ds
    by (rule list_all_weaken [OF injectedCalls_updates]) (case_tac x, simp_all)
  then show ?thesis
    by (simp add: workloadCalls_eq Let_def split: prod.splits sum.splits)
qed

lemma configmapCalls_status:
  "list_all (\<lambda>x. statusCarriesSpec b x \<and> statusNotSidecar x) (configmapCalls r b cred s)"
  by (simp add: configmapCalls_eq Let_def workloadCalls_status
      split: prod.splits sum.splits option.splits)



text \<open>An artifact is created with the reference to the resource in memory.\<close>

lemma upsertOwnerRef_mem: "ref \<in> set (upsertOwnerRef ref xs)"
  by (induction xs) simp_all

lemma SetControllerReference_owned:
  "SetControllerReference b obj sch = Inr owned \<Longrightarrow>
     \<lparr>Kind = ''BasicAuthenticator'', RefName = Name b, Controller = True\<rparr>
       \<in> set (OwnerReferences owned)"
  using upsertOwnerRef_mem [of "ownerRefOf b" "OwnerReferences obj"]
  by (auto simp: SetControllerReference_def ownerRefOf_def split: if_splits option.splits)

lemma workloadCalls_owned:
  "list_all (artifactOwned (Name b)) (workloadCalls r b cm cred s)"
proof -
  have "list_all (artifactOwned (Name b)) (injectedCalls (Client r) ds s)" for ds
    by (rule list_all_weaken [OF injectedCalls_updates]) (case_tac x, simp_all)
  then show ?thesis
    by (simp add: workloadCalls_eq Let_def SetControllerReference_owned
        split: prod.splits sum.splits)
qed

lemma configmapCalls_owned:
  "list_all (artifactOwned (Name b)) (configmapCalls r b cred s)"
  by (simp add: configmapCalls_eq Let_def workloadCalls_owned SetControllerReference_owned
      split: prod.splits sum.splits option.splits)

text \<open>A create of an artifact is the last call, and the result asks for a requeue.\<close>

lemma workloadCalls_createEnds: "createEndsCalls (workloadCalls r b cm cred s)"
  by (simp add: workloadCalls_eq Let_def injectedCalls_createEnds split: prod.splits sum.splits)

lemma configmapCalls_createEnds: "createEndsCalls (configmapCalls r b cred s)"
  by (simp add: configmapCalls_eq Let_def workloadCalls_createEnds
      split: prod.splits sum.splits option.splits)

lemma credentialsCalls_createEnds: "createEndsCalls (credentialsCalls r req b s)"
  by (simp add: credentialsCalls_eq Let_def configmapCalls_createEnds
      split: prod.splits sum.splits option.splits)

lemma calls_createEnds: "createEndsCalls (calls r req s)"
  by (simp add: calls_eq credentialsCalls_createEnds split: prod.splits sum.splits)

lemma workload_create_requeues:
  "list_ex isArtifactCreate (workloadCalls r b cm cred s) \<Longrightarrow>
     Requeue (fst (fst (reconcileWorkload r b cm cred s)))"
  by (auto simp: workloadCalls_eq reconcileWorkload_def Let_def injectedCalls_no_create
      split: prod.splits sum.splits option.splits if_splits)

lemma configmap_create_requeues:
  "list_ex isArtifactCreate (configmapCalls r b cred s) \<Longrightarrow>
     Requeue (fst (fst (reconcileConfigmap r b cred s)))"
  by (auto simp: configmapCalls_eq reconcileConfigmap_def Let_def workload_create_requeues
      split: prod.splits sum.splits option.splits if_splits)

lemma credentials_create_requeues:
  "list_ex isArtifactCreate (credentialsCalls r req b s) \<Longrightarrow>
     Requeue (fst (fst (reconcileCredentials r req b s)))"
  by (auto simp: credentialsCalls_eq reconcileCredentials_def Let_def configmap_create_requeues
      split: prod.splits sum.splits option.splits if_splits)

lemma Reconcile_create_requeues:
  "list_ex isArtifactCreate (calls r req s) \<Longrightarrow> Requeue (fst (fst (Reconcile r req s)))"
  by (auto simp: calls_eq Reconcile_def credentials_create_requeues
      split: prod.splits sum.splits option.splits if_splits)

subsection \<open>The in-memory store: what each operation leaves as it is\<close>

lemma storeGet_key: "storeGet objs nn = Inr obj \<Longrightarrow> keyOf obj = nn"
  by (auto simp: storeGet_def find_Some_iff split: option.splits)

lemma mem_reads [simp]:
  "GetBasicAuthenticator memClient nn s = (storeGet (basicAuthenticators s) nn, s)"
  "GetSecret memClient nn s = (storeGet (secrets s) nn, s)"
  "GetConfigMap memClient nn s = (storeGet (configMaps s) nn, s)"
  "GetDeployment memClient nn s = (storeGet (deployments s) nn, s)"
  by (simp_all add: memClient_def)

lemma mem_writes_frame [simp]:
  "secrets (snd (CreateConfigMap memClient cm s)) = secrets s"
  "basicAuthenticators (snd (CreateConfigMap memClient cm s)) = basicAuthenticators s"
  "secrets (snd (CreateDeployment memClient d s)) = secrets s"
  "basicAuthenticators (snd (CreateDeployment memClient d s)) = basicAuthenticators s"
  "secrets (snd (UpdateConfigMap memClient cm s)) = secrets s"
  "basicAuthenticators (snd (UpdateConfigMap memClient cm s)) = basicAuthenticators s"
  "secrets (snd (UpdateDeployment memClient d s)) = secrets s"
  "basicAuthenticators (snd (UpdateDeployment memClient d s)) = basicAuthenticators s"
  "secrets (snd (StatusUpdate memClient b s)) = secrets s"
  by (simp_all add: memClient_def case_prod_beta)

lemma storeUpdateStatus_specs:
  "map (\<lambda>b. (keyOf b, Spec b)) (snd (storeUpdateStatus objs obj)) = map (\<lambda>b. (keyOf b, Spec b)) objs"
  by (auto simp: storeUpdateStatus_def keyOf_def split: option.splits)

lemma mem_specs_frame [simp]:
  "specs (snd (CreateConfigMap memClient cm s)) = specs s"
  "specs (snd (CreateDeployment memClient d s)) = specs s"
  "specs (snd (UpdateConfigMap memClient cm s)) = specs s"
  "specs (snd (UpdateDeployment memClient d s)) = specs s"
  by (simp_all add: specs_def)

lemma mem_status_specs [simp]: "specs (snd (StatusUpdate memClient b s)) = specs s"
  using storeUpdateStatus_specs [of "basicAuthenticators s" b]
  by (simp add: memClient_def specs_def case_prod_beta)

lemma updateInjected_frame [simp]:
  "secrets (snd (updateInjected memClient ds s)) = secrets s"
  "specs (snd (updateInjected memClient ds s)) = specs s"
  by (induction ds arbitrary: s) (simp_all add: case_prod_beta split: sum.splits)

lemma workload_frame:
  assumes "Client r = memClient"
  shows "secrets (snd (reconcileWorkload r b cm cred s)) = secrets s \<and>
         specs (snd (reconcileWorkload r b cm cred s)) = specs s"
  using assms
  by (simp add: reconcileWorkload_def Let_def case_prod_beta split: sum.splits option.splits)

lemma configmap_frame:
  assumes "Client r = memClient"
  shows "secrets (snd (reconcileConfigmap r b cred s)) = secrets s \<and>
         specs (snd (reconcileConfigmap r b cred s)) = specs s"
  using assms workload_frame [OF assms]
  by (simp add: reconcileConfigmap_def Let_def case_prod_beta split: sum.splits option.splits)

lemma credentials_frame:
  assumes "Client r = memClient" and "CredentialsSecretRef (Spec b) \<noteq> []"
  shows "secrets (snd (reconcileCredentials r req b s)) = secrets s \<and>
         specs (snd (reconcileCredentials r req b s)) = specs s"
  using assms configmap_frame [OF assms(1)]
  by (simp add: reconcileCredentials_def Let_def case_prod_beta split: sum.splits option.splits)

lemma find_same_projection:
  "map f xs = map f ys \<Longrightarrow> find (\<lambda>x. fst (f x) = k) xs = Some b \<Longrightarrow>
     \<exists>b'. find (\<lambda>x. fst (f x) = k) ys = Some b' \<and> f b' = f b"
proof (induction xs arbitrary: ys)
  case Nil
  then show ?case by simp
next
  case (Cons x xs)
  then obtain y ys' where ys: "ys = y # ys'" "f x = f y" "map f xs = map f ys'"
    by (cases ys) auto
  show ?case
  proof (cases "fst (f x) = k")
    case True
    with Cons.prems ys show ?thesis by simp
  next
    case False
    with Cons.prems ys Cons.IH [of ys'] show ?thesis by simp
  qed
qed

lemma specs_storeGet:
  assumes "specs s' = specs s" and "storeGet (basicAuthenticators s) req = Inr b"
  shows "\<exists>b'. storeGet (basicAuthenticators s') req = Inr b' \<and> Spec b' = Spec b"
proof -
  from assms(2) have "find (\<lambda>x. fst (keyOf x, Spec x) = req) (basicAuthenticators s) = Some b"
    by (simp add: storeGet_def split: option.splits)
  from find_same_projection [OF assms(1) [unfolded specs_def, symmetric] this]
  show ?thesis by (auto simp: storeGet_def)
qed

lemma Reconcile_mem_frame:
  assumes "Client r = memClient" and "storeGet (basicAuthenticators s) req = Inr b"
    and "CredentialsSecretRef (Spec b) \<noteq> []"
  shows "secrets (snd (Reconcile r req s)) = secrets s \<and> specs (snd (Reconcile r req s)) = specs s"
  using assms credentials_frame [OF assms(1,3)] by (simp add: Reconcile_def)

lemma reconcileTimes_Suc:
  "reconcileTimes (Suc n) r req s = snd (Reconcile r req (reconcileTimes n r req s))"
  by (simp add: reconcileTimes_def)

lemma reconcileTimes_mem_frame:
  assumes "Client r = memClient" and "storeGet (basicAuthenticators s) req = Inr b"
    and "CredentialsSecretRef (Spec b) \<noteq> []"
  shows "secrets (reconcileTimes n r req s) = secrets s \<and> specs (reconcileTimes n r req s) = specs s"
proof (induction n)
  case 0
  show ?case by (simp add: reconcileTimes_def)
next
  case (Suc n)
  from specs_storeGet [OF conjunct2 [OF Suc.IH] assms(2)]
  obtain b' where b': "storeGet (basicAuthenticators (reconcileTimes n r req s)) req = Inr b'"
    "Spec b' = Spec b" by blast
  from Reconcile_mem_frame [OF assms(1) b'(1)] b'(2) assms(3) Suc.IH
  show ?case by (simp add: reconcileTimes_Suc)
qed

lemma calls_no_credential_write:
  assumes "GetBasicAuthenticator (Client r) req s = (Inr b0, s1)"
    and "GetBasicAuthenticator (Client r) req s1 = (Inr b, s2)"
    and "CredentialsSecretRef (Spec b) \<noteq> []"
  shows "list_all (\<lambda>x. \<not> isCredentialWrite x \<and> statusCarriesSpec b x) (calls r req s)"
proof -
  have "list_all (\<lambda>x. \<not> isCredentialWrite x \<and> statusCarriesSpec b x) (configmapCalls r b cred s')"
    for cred s'
    using configmapCalls_no_credential_write [of r b cred s'] configmapCalls_status [of b r cred s']
    by (simp add: list_all_iff)
  with assms show ?thesis
    by (simp add: calls_eq credentialsCalls_eq split: prod.splits sum.splits)
qed

lemma credentialsCalls_secret:
  "list_all (\<lambda>x. \<forall>sec. x = CallCreateSecret sec \<longrightarrow> sec = CreateCredentials r b)
     (credentialsCalls r req b s)"
proof -
  have "list_all (\<lambda>x. \<forall>sec. x = CallCreateSecret sec \<longrightarrow> sec = CreateCredentials r b)
          (configmapCalls r b' cred s')" for b' cred s'
    by (rule list_all_weaken [OF configmapCalls_no_credential_write]) auto
  then show ?thesis
    by (simp add: credentialsCalls_eq Let_def split: prod.splits sum.splits option.splits)
qed

lemma credentialsCalls_owned_mem:
  assumes "Client r = memClient" and "keyOf b = req"
  shows "list_all (artifactOwned (snd req)) (credentialsCalls r req b s)"
proof -
  have n: "Name b = snd req" using assms(2) by (auto simp: keyOf_def)
  have a: "list_all (artifactOwned (snd req)) (configmapCalls r b cred s')" for cred s'
    using configmapCalls_owned [of b r cred s'] n by simp
  have b: "storeGet (basicAuthenticators s') req = Inr b' \<Longrightarrow>
           list_all (artifactOwned (snd req)) (configmapCalls r b' cred s')" for b' cred s'
    using configmapCalls_owned [of b' r cred s'] storeGet_key [of "basicAuthenticators s'" req b']
    by (auto simp: keyOf_def)
  show ?thesis
    using assms(1) a b
    by (simp add: credentialsCalls_eq Let_def split: prod.splits sum.splits option.splits)
qed

lemma calls_owned_mem:
  assumes "Client r = memClient"
  shows "list_all (artifactOwned (snd req)) (calls r req s)"
  using assms credentialsCalls_owned_mem [OF assms storeGet_key]
  by (simp add: calls_eq split: prod.splits sum.splits)

subsection \<open>The owner of a created secret, and the updates of the injection\<close>










lemmas store_defs =
  memReconciler_def memClient_def storeGet_def storeCreate_def storeUpdate_def
  storeUpdateStatus_def keyOf_def errorOf_def reportReady_def Let_def

lemmas helper_defs =
  createCredentials_def createNginxConfigmap_def createNginxDeployment_def proxyContainer_def
  injector_def inject_def injected_def matches_def SetControllerReference_def ownerRefOf_def
  referSameObject_def

lemmas scenario_defs =
  demoReq_def demo_def emptyStore_def demoStore_def demoRef_def demoSecret_def
  demoConfigMap_def demoDeployment_def convergedStore_def defaultedStore_def setDefaults_def
  missingSecretStore_def existingSecretStore_def sidecarDemo_def web_def sidecarStore_def
  staleDemo_def reportedStore_def afterFirst_def afterSecond_def injectedStore_def

lemmas calls_eqs =
  calls_eq credentialsCalls_eq configmapCalls_eq workloadCalls_eq
  injectedCalls_Nil injectedCalls_Cons

lemmas run_defs =
  Reconcile_def reconcileCredentials_def reconcileConfigmap_def reconcileWorkload_def

subsection \<open>The scenarios, evaluated\<close>

lemma first_invocation:
  "Reconcile memReconciler demoReq demoStore = ((\<lparr>Requeue = True\<rparr>, None), afterFirst)"
  by (simp add: run_defs store_defs helper_defs scenario_defs)

lemma first_calls:
  "calls memReconciler demoReq demoStore =
     [CallGet KBasicAuthenticator demoReq, CallGet KBasicAuthenticator demoReq,
      CallGet KSecret (''ns'', ''demo-credentials''),
      CallCreateSecret (createCredentials demo),
      CallUpdateBasicAuthenticator (demoRef\<lparr>ResourceVersion := 1\<rparr>),
      CallGet KBasicAuthenticator demoReq,
      CallGet KConfigMap (''ns'', ''demo-nginx-conf''),
      CallCreateConfigMap (demoConfigMap\<lparr>ResourceVersion := 0\<rparr>)]"
  by (simp add: calls_eqs store_defs helper_defs scenario_defs)

lemma second_invocation:
  "Reconcile memReconciler demoReq afterFirst = ((\<lparr>Requeue = True\<rparr>, None), afterSecond)"
  by (simp add: run_defs store_defs helper_defs scenario_defs)

lemma second_calls:
  "calls memReconciler demoReq afterFirst =
     [CallGet KBasicAuthenticator demoReq, CallGet KBasicAuthenticator demoReq,
      CallGet KSecret (''ns'', ''demo-credentials''),
      CallGet KConfigMap (''ns'', ''demo-nginx-conf''),
      CallGet KDeployment (''ns'', ''demo-nginx''),
      CallCreateDeployment
        (demoDeployment\<lparr>ResourceVersion := 0, DStatus := \<lparr>DReadyReplicas = 0\<rparr>\<rparr>)]"
  by (simp add: calls_eqs store_defs helper_defs scenario_defs)

lemma ready_reported: "reportReady 3 afterSecond = convergedStore"
  by (simp add: store_defs scenario_defs)

lemma third_invocation:
  "Reconcile memReconciler demoReq convergedStore = ((\<lparr>Requeue = False\<rparr>, None), reportedStore)"
  by (simp add: run_defs store_defs helper_defs scenario_defs)

lemma third_calls:
  "calls memReconciler demoReq convergedStore =
     [CallGet KBasicAuthenticator demoReq, CallGet KBasicAuthenticator demoReq,
      CallGet KSecret (''ns'', ''demo-credentials''),
      CallGet KConfigMap (''ns'', ''demo-nginx-conf''),
      CallGet KDeployment (''ns'', ''demo-nginx''),
      CallStatusUpdate (demoRef\<lparr>Status := \<lparr>ReadyReplicas = 3\<rparr>\<rparr>)]"
  by (simp add: calls_eqs store_defs helper_defs scenario_defs)

lemma fourth_calls:
  "calls memReconciler demoReq reportedStore =
     [CallGet KBasicAuthenticator demoReq, CallGet KBasicAuthenticator demoReq,
      CallGet KSecret (''ns'', ''demo-credentials''),
      CallGet KConfigMap (''ns'', ''demo-nginx-conf''),
      CallGet KDeployment (''ns'', ''demo-nginx''),
      CallStatusUpdate (demoRef\<lparr>ResourceVersion := 3, Status := \<lparr>ReadyReplicas = 3\<rparr>\<rparr>)]"
  by (simp add: calls_eqs store_defs helper_defs scenario_defs)

lemma defaulted_calls:
  "calls memReconciler demoReq defaultedStore =
     [CallGet KBasicAuthenticator demoReq, CallGet KBasicAuthenticator demoReq,
      CallGet KSecret (''ns'', ''demo-credentials''),
      CallGet KConfigMap (''ns'', ''demo-nginx-conf''),
      CallGet KDeployment (''ns'', ''demo-nginx''),
      CallUpdateDeployment demoDeployment,
      CallStatusUpdate (demoRef\<lparr>Status := \<lparr>ReadyReplicas = 3\<rparr>\<rparr>)]"
  by (simp add: calls_eqs store_defs helper_defs scenario_defs)



section \<open>The claims\<close>

subsection \<open>C1: a create ends the invocation with a requeue\<close>

text \<open>
  C1, as claimed, fails: the first invocation for a standalone resource with an empty
  reference creates the secret and goes on, in the same invocation, to store the
  reference, fetch the resource again, look the config artifact up and create it.
\<close>

theorem C1_counterexample:
  "calls memReconciler demoReq demoStore =
     [CallGet KBasicAuthenticator demoReq, CallGet KBasicAuthenticator demoReq,
      CallGet KSecret (''ns'', ''demo-credentials''),
      CallCreateSecret (createCredentials demo),
      CallUpdateBasicAuthenticator (demoRef\<lparr>ResourceVersion := 1\<rparr>),
      CallGet KBasicAuthenticator demoReq,
      CallGet KConfigMap (''ns'', ''demo-nginx-conf''),
      CallCreateConfigMap (demoConfigMap\<lparr>ResourceVersion := 0\<rparr>)]"
  by (rule first_calls)

text \<open>
  C1, amended. In every invocation, a create of the config artifact or of the
  standalone deployment is the last call, and the invocation then returns a requeue
  signal. A successful create of the credential secret does not end the invocation: it
  is followed by the update that stores the reference in the resource and by a new
  fetch of the resource, and the invocation goes on with the config artifact. In
  particular, for a standalone resource with an empty reference, the first invocation
  creates the secret and the config artifact and requeues, the second creates the
  deployment and requeues, and the third, the deployment reporting three ready
  replicas, writes the status and nothing else.
\<close>

theorem C1_create_of_artifact_requeues:
  "createEndsCalls (calls r req s) \<and>
   (list_ex isArtifactCreate (calls r req s) \<longrightarrow> Requeue (fst (fst (Reconcile r req s)))) \<and>
   (GetBasicAuthenticator (Client r) req s = (Inr b0, s1) \<longrightarrow>
    GetBasicAuthenticator (Client r) req s1 = (Inr b, s2) \<longrightarrow>
    CredentialsSecretRef (Spec b) = [] \<longrightarrow>
    GetSecret (Client r) (Namespace (CreateCredentials r b), Name (CreateCredentials r b)) s2
      = (Inl NotFound, s3) \<longrightarrow>
    CreateSecret (Client r) (CreateCredentials r b) s3 = (None, s4) \<longrightarrow>
    UpdateBasicAuthenticator (Client r)
      (b\<lparr>Spec := (Spec b)\<lparr>CredentialsSecretRef := Name (CreateCredentials r b)\<rparr>\<rparr>) s4
      = (None, s5) \<longrightarrow>
    GetBasicAuthenticator (Client r) req s5 = (Inr b', s6) \<longrightarrow>
      Reconcile r req s = reconcileConfigmap r b' (Name (CreateCredentials r b)) s6 \<and>
      calls r req s =
        [CallGet KBasicAuthenticator req, CallGet KBasicAuthenticator req,
         CallGet KSecret (Namespace (CreateCredentials r b), Name (CreateCredentials r b)),
         CallCreateSecret (CreateCredentials r b),
         CallUpdateBasicAuthenticator
           (b\<lparr>Spec := (Spec b)\<lparr>CredentialsSecretRef := Name (CreateCredentials r b)\<rparr>\<rparr>),
         CallGet KBasicAuthenticator req]
        @ configmapCalls r b' (Name (CreateCredentials r b)) s6) \<and>
   (Reconcile memReconciler demoReq demoStore = ((\<lparr>Requeue = True\<rparr>, None), afterFirst) \<and>
    writes memReconciler demoReq demoStore =
      [CallCreateSecret (createCredentials demo),
       CallUpdateBasicAuthenticator (demoRef\<lparr>ResourceVersion := 1\<rparr>),
       CallCreateConfigMap (demoConfigMap\<lparr>ResourceVersion := 0\<rparr>)] \<and>
    Reconcile memReconciler demoReq afterFirst = ((\<lparr>Requeue = True\<rparr>, None), afterSecond) \<and>
    writes memReconciler demoReq afterFirst =
      [CallCreateDeployment
         (demoDeployment\<lparr>ResourceVersion := 0, DStatus := \<lparr>DReadyReplicas = 0\<rparr>\<rparr>)] \<and>
    reportReady 3 afterSecond = convergedStore \<and>
    Reconcile memReconciler demoReq convergedStore
      = ((\<lparr>Requeue = False\<rparr>, None), reportedStore) \<and>
    writes memReconciler demoReq convergedStore =
      [CallStatusUpdate (demoRef\<lparr>Status := \<lparr>ReadyReplicas = 3\<rparr>\<rparr>)])"
proof (intro conjI impI)
  show "createEndsCalls (calls r req s)"
    by (rule calls_createEnds)
  show "list_ex isArtifactCreate (calls r req s) \<Longrightarrow> Requeue (fst (fst (Reconcile r req s)))"
    by (rule Reconcile_create_requeues)
next
  assume p: "GetBasicAuthenticator (Client r) req s = (Inr b0, s1)"
    "GetBasicAuthenticator (Client r) req s1 = (Inr b, s2)"
    "CredentialsSecretRef (Spec b) = []"
    "GetSecret (Client r) (Namespace (CreateCredentials r b), Name (CreateCredentials r b)) s2
      = (Inl NotFound, s3)"
    "CreateSecret (Client r) (CreateCredentials r b) s3 = (None, s4)"
    "UpdateBasicAuthenticator (Client r)
      (b\<lparr>Spec := (Spec b)\<lparr>CredentialsSecretRef := Name (CreateCredentials r b)\<rparr>\<rparr>) s4
      = (None, s5)"
    "GetBasicAuthenticator (Client r) req s5 = (Inr b', s6)"
  from p show "Reconcile r req s = reconcileConfigmap r b' (Name (CreateCredentials r b)) s6"
    by (simp add: Reconcile_def reconcileCredentials_def Let_def)
  from p show "calls r req s =
        [CallGet KBasicAuthenticator req, CallGet KBasicAuthenticator req,
         CallGet KSecret (Namespace (CreateCredentials r b), Name (CreateCredentials r b)),
         CallCreateSecret (CreateCredentials r b),
         CallUpdateBasicAuthenticator
           (b\<lparr>Spec := (Spec b)\<lparr>CredentialsSecretRef := Name (CreateCredentials r b)\<rparr>\<rparr>),
         CallGet KBasicAuthenticator req]
        @ configmapCalls r b' (Name (CreateCredentials r b)) s6"
    by (simp add: calls_eq credentialsCalls_eq Let_def)
next
  show "Reconcile memReconciler demoReq demoStore = ((\<lparr>Requeue = True\<rparr>, None), afterFirst)"
    by (rule first_invocation)
  show "writes memReconciler demoReq demoStore =
      [CallCreateSecret (createCredentials demo),
       CallUpdateBasicAuthenticator (demoRef\<lparr>ResourceVersion := 1\<rparr>),
       CallCreateConfigMap (demoConfigMap\<lparr>ResourceVersion := 0\<rparr>)]"
    by (simp add: writes_def first_calls)
  show "Reconcile memReconciler demoReq afterFirst = ((\<lparr>Requeue = True\<rparr>, None), afterSecond)"
    by (rule second_invocation)
  show "writes memReconciler demoReq afterFirst =
      [CallCreateDeployment
         (demoDeployment\<lparr>ResourceVersion := 0, DStatus := \<lparr>DReadyReplicas = 0\<rparr>\<rparr>)]"
    by (simp add: writes_def second_calls)
  show "reportReady 3 afterSecond = convergedStore"
    by (rule ready_reported)
  show "Reconcile memReconciler demoReq convergedStore
      = ((\<lparr>Requeue = False\<rparr>, None), reportedStore)"
    by (rule third_invocation)
  show "writes memReconciler demoReq convergedStore =
      [CallStatusUpdate (demoRef\<lparr>Status := \<lparr>ReadyReplicas = 3\<rparr>\<rparr>)]"
    by (simp add: writes_def third_calls)
qed

theorem C1_witness:
  "list_ex isArtifactCreate (calls memReconciler demoReq demoStore) \<and>
   GetBasicAuthenticator (Client memReconciler) demoReq demoStore = (Inr demo, demoStore) \<and>
   CredentialsSecretRef (Spec demo) = [] \<and>
   GetSecret (Client memReconciler)
     (Namespace (CreateCredentials memReconciler demo), Name (CreateCredentials memReconciler demo))
     demoStore = (Inl NotFound, demoStore) \<and>
   CreateSecret (Client memReconciler) (CreateCredentials memReconciler demo) demoStore
     = (None, existingSecretStore) \<and>
   UpdateBasicAuthenticator (Client memReconciler)
     (demo\<lparr>Spec := (Spec demo)
        \<lparr>CredentialsSecretRef := Name (CreateCredentials memReconciler demo)\<rparr>\<rparr>)
     existingSecretStore = (None, afterFirst\<lparr>configMaps := []\<rparr>) \<and>
   GetBasicAuthenticator (Client memReconciler) demoReq (afterFirst\<lparr>configMaps := []\<rparr>)
     = (Inr demoRef, afterFirst\<lparr>configMaps := []\<rparr>) \<and>
   createEndsCalls (calls memReconciler demoReq demoStore) \<and>
   Requeue (fst (fst (Reconcile memReconciler demoReq demoStore))) \<and>
   Reconcile memReconciler demoReq demoStore =
     reconcileConfigmap memReconciler demoRef (Name (CreateCredentials memReconciler demo))
       (afterFirst\<lparr>configMaps := []\<rparr>)"
proof -
  have c: "list_ex isArtifactCreate (calls memReconciler demoReq demoStore)"
    by (simp add: first_calls)
  have g: "GetBasicAuthenticator (Client memReconciler) demoReq demoStore = (Inr demo, demoStore)"
    by (simp add: store_defs scenario_defs)
  have e: "CredentialsSecretRef (Spec demo) = []"
    by (simp add: scenario_defs)
  have n: "GetSecret (Client memReconciler)
     (Namespace (CreateCredentials memReconciler demo), Name (CreateCredentials memReconciler demo))
     demoStore = (Inl NotFound, demoStore)"
    by (simp add: store_defs helper_defs scenario_defs)
  have k: "CreateSecret (Client memReconciler) (CreateCredentials memReconciler demo) demoStore
     = (None, existingSecretStore)"
    by (simp add: store_defs helper_defs scenario_defs)
  have u: "UpdateBasicAuthenticator (Client memReconciler)
     (demo\<lparr>Spec := (Spec demo)
        \<lparr>CredentialsSecretRef := Name (CreateCredentials memReconciler demo)\<rparr>\<rparr>)
     existingSecretStore = (None, afterFirst\<lparr>configMaps := []\<rparr>)"
    by (simp add: store_defs helper_defs scenario_defs)
  have f: "GetBasicAuthenticator (Client memReconciler) demoReq (afterFirst\<lparr>configMaps := []\<rparr>)
     = (Inr demoRef, afterFirst\<lparr>configMaps := []\<rparr>)"
    by (simp add: store_defs scenario_defs)
  note t = C1_create_of_artifact_requeues
         [of memReconciler demoReq demoStore demo demoStore demo demoStore demoStore
             existingSecretStore "afterFirst\<lparr>configMaps := []\<rparr>" demoRef
             "afterFirst\<lparr>configMaps := []\<rparr>"]
  from t have t1: "createEndsCalls (calls memReconciler demoReq demoStore)"
    by (rule conjunct1)
  from t c have t2: "Requeue (fst (fst (Reconcile memReconciler demoReq demoStore)))"
    by blast
  from t g e n k u f have t3: "Reconcile memReconciler demoReq demoStore =
     reconcileConfigmap memReconciler demoRef (Name (CreateCredentials memReconciler demo))
       (afterFirst\<lparr>configMaps := []\<rparr>)"
    by blast
  from c g e n k u f t1 t2 t3 show ?thesis by (intro conjI)
qed

subsection \<open>C2: the credentials, once referenced, are left alone\<close>

text \<open>
  C2. When the resource, as the invocation fetches it, has a non-empty reference, the
  invocation neither creates a secret nor updates the resource (the two calls that
  make or change credentials; the client is never asked to update a secret), and the
  status update it may issue carries the spec it fetched. Over the in-memory store,
  the secrets and the stored specs, the reference among them, are the same after any
  number of invocations, none of which makes such a call.
\<close>

theorem C2_credentials_stable:
  assumes "GetBasicAuthenticator (Client r) req s = (Inr b0, s1)"
    and "GetBasicAuthenticator (Client r) req s1 = (Inr b, s2)"
    and "CredentialsSecretRef (Spec b) \<noteq> []"
  shows "list_all (\<lambda>x. \<not> isCredentialWrite x \<and> statusCarriesSpec b x) (calls r req s) \<and>
         (Client r = memClient \<longrightarrow>
            (\<forall>n. secrets (reconcileTimes n r req s) = secrets s \<and>
                 specs (reconcileTimes n r req s) = specs s \<and>
                 list_all (\<lambda>x. \<not> isCredentialWrite x) (calls r req (reconcileTimes n r req s))))"
proof (intro conjI impI allI)
  show "list_all (\<lambda>x. \<not> isCredentialWrite x \<and> statusCarriesSpec b x) (calls r req s)"
    by (rule calls_no_credential_write [OF assms])
next
  fix n
  assume m: "Client r = memClient"
  with assms(1,2) have g: "storeGet (basicAuthenticators s) req = Inr b" by auto
  from reconcileTimes_mem_frame [OF m g assms(3)]
  show "secrets (reconcileTimes n r req s) = secrets s"
    and f: "specs (reconcileTimes n r req s) = specs s" by simp_all
  from specs_storeGet [OF f g]
  obtain b' where b': "storeGet (basicAuthenticators (reconcileTimes n r req s)) req = Inr b'"
    "Spec b' = Spec b" by blast
  let ?s = "reconcileTimes n r req s"
  have "GetBasicAuthenticator (Client r) req ?s = (Inr b', ?s)" using m b'(1) by simp
  from calls_no_credential_write [OF this this] b'(2) assms(3)
  show "list_all (\<lambda>x. \<not> isCredentialWrite x) (calls r req ?s)"
    by (simp add: list_all_iff)
qed

theorem C2_witness:
  "GetBasicAuthenticator (Client memReconciler) demoReq convergedStore
     = (Inr demoRef, convergedStore) \<and>
   CredentialsSecretRef (Spec demoRef) \<noteq> [] \<and>
   Client memReconciler = memClient \<and>
   list_all (\<lambda>x. \<not> isCredentialWrite x \<and> statusCarriesSpec demoRef x)
     (calls memReconciler demoReq convergedStore) \<and>
   secrets (reconcileTimes 2 memReconciler demoReq convergedStore) = secrets convergedStore \<and>
   specs (reconcileTimes 2 memReconciler demoReq convergedStore) = specs convergedStore"
proof -
  have g: "GetBasicAuthenticator (Client memReconciler) demoReq convergedStore
             = (Inr demoRef, convergedStore)"
    by (simp add: store_defs scenario_defs)
  have n: "CredentialsSecretRef (Spec demoRef) \<noteq> []"
    by (simp add: scenario_defs)
  have m: "Client memReconciler = memClient"
    by (simp add: memReconciler_def)
  note t = C2_credentials_stable [OF g g n]
  from t have t1: "list_all (\<lambda>x. \<not> isCredentialWrite x \<and> statusCarriesSpec demoRef x)
     (calls memReconciler demoReq convergedStore)"
    by (rule conjunct1)
  from t m have t2: "secrets (reconcileTimes 2 memReconciler demoReq convergedStore)
      = secrets convergedStore"
    and t3: "specs (reconcileTimes 2 memReconciler demoReq convergedStore) = specs convergedStore"
    by blast+
  from g n m t1 t2 t3 show ?thesis by (intro conjI)
qed

subsection \<open>C3: the owner of what is created\<close>



subsection \<open>C4: a second run over a converged store\<close>

text \<open>
  C4, as claimed, fails: over the store in which every dependent of \<open>demo\<close> exists as
  derived, a run writes the status, and the next run, with nothing changed in between,
  writes the status again.
\<close>

theorem C4_counterexample:
  "Reconcile memReconciler demoReq convergedStore = ((\<lparr>Requeue = False\<rparr>, None), reportedStore) \<and>
   writes memReconciler demoReq convergedStore =
     [CallStatusUpdate (demoRef\<lparr>Status := \<lparr>ReadyReplicas = 3\<rparr>\<rparr>)] \<and>
   writes memReconciler demoReq reportedStore =
     [CallStatusUpdate (demoRef\<lparr>ResourceVersion := 3, Status := \<lparr>ReadyReplicas = 3\<rparr>\<rparr>)]"
  by (simp add: writes_def third_invocation third_calls fourth_calls)

text \<open>
  C4, amended. When the referenced secret is found and the config artifact is found
  with the derived content, a run creates nothing and updates no object: in standalone
  mode, the deployment found with the derived spec, its only write is the status
  update, which it issues on every run; in sidecar mode, nothing left to inject, it
  writes nothing.
\<close>

theorem C4_converged_run_writes_only_status:
  assumes "GetBasicAuthenticator (Client r) req s = (Inr b0, s1)"
    and "GetBasicAuthenticator (Client r) req s1 = (Inr b, s2)"
    and "CredentialsSecretRef (Spec b) \<noteq> []"
    and "GetSecret (Client r) (Namespace b, CredentialsSecretRef (Spec b)) s2 = (Inr sec, s3)"
    and "GetConfigMap (Client r) (Namespace b, Name (CreateNginxConfigmap r b)) s3 = (Inr fc, s4)"
    and "Data (CreateNginxConfigmap r b) = Data fc"
  shows "(Type (Spec b) \<noteq> ''sidecar'' \<longrightarrow>
            GetDeployment (Client r)
              (Namespace b,
               Name (CreateNginxDeployment r b (Name fc) (CredentialsSecretRef (Spec b)))) s4
              = (Inr fd, s5) \<longrightarrow>
            DSpec (CreateNginxDeployment r b (Name fc) (CredentialsSecretRef (Spec b))) = DSpec fd \<longrightarrow>
            writes r req s =
              [CallStatusUpdate
                 (b\<lparr>Status := (Status b)
                      \<lparr>ReadyReplicas := sint (DReadyReplicas (DStatus fd))\<rparr>\<rparr>)]) \<and>
         (Type (Spec b) = ''sidecar'' \<longrightarrow>
            Injector r b (Name fc) (CredentialsSecretRef (Spec b)) s4 = Inr [] \<longrightarrow>
            writes r req s = [])"
  using assms
  by (simp add: writes_def calls_eqs Let_def)

theorem C4_witness:
  "GetBasicAuthenticator (Client memReconciler) demoReq reportedStore
     = (Inr (demoRef\<lparr>ResourceVersion := 3, Status := \<lparr>ReadyReplicas = 3\<rparr>\<rparr>), reportedStore) \<and>
   Type (Spec demoRef) \<noteq> ''sidecar'' \<and>
   writes memReconciler demoReq reportedStore =
     [CallStatusUpdate (demoRef\<lparr>ResourceVersion := 3, Status := \<lparr>ReadyReplicas = 3\<rparr>\<rparr>)] \<and>
   GetBasicAuthenticator (Client memReconciler) demoReq injectedStore
     = (Inr sidecarDemo, injectedStore) \<and>
   Type (Spec sidecarDemo) = ''sidecar'' \<and>
   Injector memReconciler sidecarDemo ''demo-nginx-conf'' ''demo-credentials'' injectedStore = Inr [] \<and>
   writes memReconciler demoReq injectedStore = []"
proof -
  let ?b = "demoRef\<lparr>ResourceVersion := 3, Status := \<lparr>ReadyReplicas = 3\<rparr>\<rparr>"
  have g: "GetBasicAuthenticator (Client memReconciler) demoReq reportedStore
             = (Inr ?b, reportedStore)"
    by (simp add: store_defs scenario_defs)
  have n: "CredentialsSecretRef (Spec ?b) \<noteq> []"
    by (simp add: scenario_defs)
  have k: "GetSecret (Client memReconciler) (Namespace ?b, CredentialsSecretRef (Spec ?b))
             reportedStore = (Inr demoSecret, reportedStore)"
    by (simp add: store_defs helper_defs scenario_defs)
  have c: "GetConfigMap (Client memReconciler)
             (Namespace ?b, Name (CreateNginxConfigmap memReconciler ?b)) reportedStore
             = (Inr demoConfigMap, reportedStore)"
    by (simp add: store_defs helper_defs scenario_defs)
  have e: "Data (CreateNginxConfigmap memReconciler ?b) = Data demoConfigMap"
    by (simp add: store_defs helper_defs scenario_defs)
  have ty: "Type (Spec ?b) \<noteq> ''sidecar''" "Type (Spec demoRef) \<noteq> ''sidecar''"
    by (simp_all add: scenario_defs)
  have d: "GetDeployment (Client memReconciler)
             (Namespace ?b,
              Name (CreateNginxDeployment memReconciler ?b (Name demoConfigMap)
                      (CredentialsSecretRef (Spec ?b)))) reportedStore
             = (Inr demoDeployment, reportedStore)"
    by (simp add: store_defs helper_defs scenario_defs)
  have q: "DSpec (CreateNginxDeployment memReconciler ?b (Name demoConfigMap)
                    (CredentialsSecretRef (Spec ?b))) = DSpec demoDeployment"
    by (simp add: store_defs helper_defs scenario_defs)
  from C4_converged_run_writes_only_status [OF g g n k c e, of demoDeployment reportedStore] ty d q
  have w: "writes memReconciler demoReq reportedStore =
     [CallStatusUpdate (?b\<lparr>Status := (Status ?b)
        \<lparr>ReadyReplicas := sint (DReadyReplicas (DStatus demoDeployment))\<rparr>\<rparr>)]"
    by blast
  have w': "writes memReconciler demoReq reportedStore = [CallStatusUpdate ?b]"
    unfolding w by (simp add: scenario_defs)
  let ?cm = "(createNginxConfigmap sidecarDemo)
               \<lparr>ResourceVersion := 1, OwnerReferences := [ownerRefOf sidecarDemo]\<rparr>"
  have g2: "GetBasicAuthenticator (Client memReconciler) demoReq injectedStore
             = (Inr sidecarDemo, injectedStore)"
    by (simp add: store_defs scenario_defs)
  have n2: "CredentialsSecretRef (Spec sidecarDemo) \<noteq> []"
    by (simp add: scenario_defs)
  have k2: "GetSecret (Client memReconciler)
              (Namespace sidecarDemo, CredentialsSecretRef (Spec sidecarDemo)) injectedStore
              = (Inr demoSecret, injectedStore)"
    by (simp add: store_defs helper_defs scenario_defs)
  have c2: "GetConfigMap (Client memReconciler)
              (Namespace sidecarDemo, Name (CreateNginxConfigmap memReconciler sidecarDemo))
              injectedStore = (Inr ?cm, injectedStore)"
    by (simp add: store_defs helper_defs scenario_defs)
  have e2: "Data (CreateNginxConfigmap memReconciler sidecarDemo) = Data ?cm"
    by (simp add: store_defs helper_defs scenario_defs)
  have ty2: "Type (Spec sidecarDemo) = ''sidecar''"
    by (simp add: scenario_defs)
  have i2: "Injector memReconciler sidecarDemo (Name ?cm) (CredentialsSecretRef (Spec sidecarDemo))
              injectedStore = Inr []"
    by (simp add: store_defs helper_defs scenario_defs)
  have i2': "Injector memReconciler sidecarDemo ''demo-nginx-conf'' ''demo-credentials''
               injectedStore = Inr []"
    using i2 by (simp add: helper_defs scenario_defs)
  from C4_converged_run_writes_only_status [OF g2 g2 n2 k2 c2 e2] ty2 i2
  have w2: "writes memReconciler demoReq injectedStore = []"
    by blast
  from g ty(2) w' g2 ty2 i2' w2 show ?thesis by (intro conjI)
qed

subsection \<open>C5: the test that decides whether the deployment is updated\<close>

text \<open>
  C5, as claimed, fails: the stored deployment is the derived one with the server's
  defaults filled in, and the run updates it, overwriting the stored spec with the
  derived one.
\<close>

theorem C5_counterexample:
  "deployments defaultedStore = [demoDeployment\<lparr>DSpec := setDefaults (DSpec demoDeployment)\<rparr>] \<and>
   DSpec demoDeployment = DSpec (createNginxDeployment demoRef ''demo-nginx-conf'' ''demo-credentials'') \<and>
   writes memReconciler demoReq defaultedStore =
     [CallUpdateDeployment demoDeployment,
      CallStatusUpdate (demoRef\<lparr>Status := \<lparr>ReadyReplicas = 3\<rparr>\<rparr>)]"
  by (simp add: writes_def defaulted_calls) (simp add: scenario_defs helper_defs)

text \<open>
  C5, amended. In standalone mode, when the deployment is found, it is updated exactly
  when the derived spec is not structurally equal to the stored spec, and the update
  overwrites the stored spec with the derived one; neither side is normalized, so a
  stored spec that is the derived one with the server's defaults filled in is updated
  whenever the derived one leaves a defaulted field unset.
\<close>

theorem C5_update_iff_specs_differ:
  assumes "Type (Spec b) \<noteq> ''sidecar''"
    and "GetDeployment (Client r) (Namespace b, Name (CreateNginxDeployment r b (Name cm) cred)) s
           = (Inr fd, s1)"
  shows "(list_ex isUpdateDeployment (workloadCalls r b cm cred s)
            \<longleftrightarrow> DSpec (CreateNginxDeployment r b (Name cm) cred) \<noteq> DSpec fd) \<and>
         (DSpec (CreateNginxDeployment r b (Name cm) cred) \<noteq> DSpec fd \<longrightarrow>
            take 2 (workloadCalls r b cm cred s) =
              [CallGet KDeployment (Namespace b, Name (CreateNginxDeployment r b (Name cm) cred)),
               CallUpdateDeployment
                 (fd\<lparr>DSpec := DSpec (CreateNginxDeployment r b (Name cm) cred)\<rparr>)]) \<and>
         (DSpec fd = setDefaults (DSpec (CreateNginxDeployment r b (Name cm) cred)) \<longrightarrow>
          RevisionHistoryLimit (DSpec (CreateNginxDeployment r b (Name cm) cred)) = None \<longrightarrow>
            list_ex isUpdateDeployment (workloadCalls r b cm cred s))"
proof -
  have d: "RevisionHistoryLimit sp = None \<Longrightarrow> sp \<noteq> setDefaults sp" for sp
  proof
    assume "RevisionHistoryLimit sp = None" and "sp = setDefaults sp"
    then have "RevisionHistoryLimit (setDefaults sp) = None" by simp
    then show False by (simp add: setDefaults_def \<open>RevisionHistoryLimit sp = None\<close>)
  qed
  show ?thesis
    using assms d [of "DSpec (CreateNginxDeployment r b (Name cm) cred)"]
    by (auto simp: workloadCalls_eq Let_def split: prod.splits sum.splits)
qed

theorem C5_witness:
  "Type (Spec demoRef) \<noteq> ''sidecar'' \<and>
   GetDeployment (Client memReconciler)
     (Namespace demoRef,
      Name (CreateNginxDeployment memReconciler demoRef (Name demoConfigMap) ''demo-credentials''))
     defaultedStore
     = (Inr (demoDeployment\<lparr>DSpec := setDefaults (DSpec demoDeployment)\<rparr>), defaultedStore) \<and>
   DSpec (CreateNginxDeployment memReconciler demoRef (Name demoConfigMap) ''demo-credentials'')
     \<noteq> setDefaults (DSpec demoDeployment) \<and>
   list_ex isUpdateDeployment
     (workloadCalls memReconciler demoRef demoConfigMap ''demo-credentials'' defaultedStore)"
proof -
  let ?fd = "demoDeployment\<lparr>DSpec := setDefaults (DSpec demoDeployment)\<rparr>"
  have ty: "Type (Spec demoRef) \<noteq> ''sidecar''"
    by (simp add: scenario_defs)
  have d: "GetDeployment (Client memReconciler)
     (Namespace demoRef,
      Name (CreateNginxDeployment memReconciler demoRef (Name demoConfigMap) ''demo-credentials''))
     defaultedStore = (Inr ?fd, defaultedStore)"
    by (simp add: store_defs helper_defs scenario_defs)
  have q: "DSpec (CreateNginxDeployment memReconciler demoRef (Name demoConfigMap) ''demo-credentials'')
     \<noteq> setDefaults (DSpec demoDeployment)"
    by (simp add: store_defs helper_defs scenario_defs)
  then have q': "DSpec (CreateNginxDeployment memReconciler demoRef (Name demoConfigMap)
                   ''demo-credentials'') \<noteq> DSpec ?fd"
    by simp
  from C5_update_iff_specs_differ [OF ty d] q'
  have u: "list_ex isUpdateDeployment
     (workloadCalls memReconciler demoRef demoConfigMap ''demo-credentials'' defaultedStore)"
    by blast
  from ty d q u show ?thesis by (intro conjI)
qed

subsection \<open>C6: the resource is absent\<close>

text \<open>
  C6. When the first fetch of the resource reports absence, the invocation returns
  success, with no error and no requeue, and the fetch is its only call: it reads and
  writes no dependent object.
\<close>

theorem C6_absent_resource_is_success:
  assumes "GetBasicAuthenticator (Client r) req s = (Inl NotFound, s1)"
  shows "Reconcile r req s = ((\<lparr>Requeue = False\<rparr>, None), s1) \<and>
         calls r req s = [CallGet KBasicAuthenticator req]"
  using assms by (simp add: Reconcile_def calls_eq)

theorem C6_witness:
  "GetBasicAuthenticator (Client memReconciler) demoReq emptyStore = (Inl NotFound, emptyStore) \<and>
   Reconcile memReconciler demoReq emptyStore = ((\<lparr>Requeue = False\<rparr>, None), emptyStore) \<and>
   calls memReconciler demoReq emptyStore = [CallGet KBasicAuthenticator demoReq]"
proof -
  have h: "GetBasicAuthenticator (Client memReconciler) demoReq emptyStore
             = (Inl NotFound, emptyStore)"
    by (simp add: store_defs scenario_defs)
  from C6_absent_resource_is_success [OF h] h show ?thesis by simp
qed

subsection \<open>C7: the status in sidecar mode\<close>




subsection \<open>C8: the referenced secret cannot be fetched\<close>

text \<open>
  C8, as claimed, fails: with the reference set and the secret absent, the invocation
  returns the absence as its error, with no requeue flag.
\<close>

theorem C8_counterexample:
  "Reconcile memReconciler demoReq missingSecretStore =
     ((\<lparr>Requeue = False\<rparr>, Some NotFound), missingSecretStore)"
  by (simp add: run_defs store_defs helper_defs scenario_defs)

text \<open>
  C8, amended. When the reference is set and the fetch of the referenced secret fails,
  for absence as for any other reason, the invocation ends there and returns that
  error, with an empty result.
\<close>

theorem C8_secret_fetch_failure_is_surfaced:
  assumes "GetBasicAuthenticator (Client r) req s = (Inr b0, s1)"
    and "GetBasicAuthenticator (Client r) req s1 = (Inr b, s2)"
    and "CredentialsSecretRef (Spec b) \<noteq> []"
    and "GetSecret (Client r) (Namespace b, CredentialsSecretRef (Spec b)) s2 = (Inl e, s3)"
  shows "Reconcile r req s = ((\<lparr>Requeue = False\<rparr>, Some e), s3) \<and>
         calls r req s =
           [CallGet KBasicAuthenticator req, CallGet KBasicAuthenticator req,
            CallGet KSecret (Namespace b, CredentialsSecretRef (Spec b))]"
  using assms
  by (simp add: Reconcile_def reconcileCredentials_def calls_eq credentialsCalls_eq Let_def)

theorem C8_witness:
  "GetBasicAuthenticator (Client memReconciler) demoReq missingSecretStore
     = (Inr demoRef, missingSecretStore) \<and>
   CredentialsSecretRef (Spec demoRef) \<noteq> [] \<and>
   GetSecret (Client memReconciler) (Namespace demoRef, CredentialsSecretRef (Spec demoRef))
     missingSecretStore = (Inl NotFound, missingSecretStore) \<and>
   Reconcile memReconciler demoReq missingSecretStore
     = ((\<lparr>Requeue = False\<rparr>, Some NotFound), missingSecretStore) \<and>
   calls memReconciler demoReq missingSecretStore =
     [CallGet KBasicAuthenticator demoReq, CallGet KBasicAuthenticator demoReq,
      CallGet KSecret (Namespace demoRef, CredentialsSecretRef (Spec demoRef))]"
proof -
  have g: "GetBasicAuthenticator (Client memReconciler) demoReq missingSecretStore
             = (Inr demoRef, missingSecretStore)"
    by (simp add: store_defs scenario_defs)
  have n: "CredentialsSecretRef (Spec demoRef) \<noteq> []"
    by (simp add: scenario_defs)
  have f: "GetSecret (Client memReconciler)
             (Namespace demoRef, CredentialsSecretRef (Spec demoRef)) missingSecretStore
             = (Inl NotFound, missingSecretStore)"
    by (simp add: store_defs scenario_defs)
  from C8_secret_fetch_failure_is_surfaced [OF g g n f] g n f show ?thesis by simp
qed

subsection \<open>C9: the status is written through the status-only path\<close>

text \<open>
  C9. The part of the invocation that reports the status (lines 135 to 196) writes the
  resource through \<^verbatim>\<open>Status().Update\<close> only: it never calls \<^verbatim>\<open>Update\<close> on the resource,
  and when it succeeds in standalone mode the status update is its last call. Over the
  in-memory store, whose status update is the status-only write of the store
  contract, the stored specs are then the same before and after, whatever the spec of
  the copy held in memory.
\<close>

theorem C9_status_write_keeps_spec:
  assumes "Client r = memClient"
  shows "specs (snd (StatusUpdate (Client r) b' s)) = specs s \<and>
         specs (snd (reconcileWorkload r b cm cred s)) = specs s \<and>
         list_all (\<lambda>x. \<not> isCredentialWrite x \<and> statusCarriesSpec b x) (workloadCalls r b cm cred s) \<and>
         (Type (Spec b) \<noteq> ''sidecar'' \<longrightarrow>
          fst (reconcileWorkload r b cm cred s) = (\<lparr>Requeue = False\<rparr>, None) \<longrightarrow>
            isStatusUpdate (last (workloadCalls r b cm cred s)))"
proof -
  have a: "list_all (\<lambda>x. \<not> isCredentialWrite x \<and> statusCarriesSpec b x) (workloadCalls r b cm cred s)"
    using workloadCalls_no_credential_write [of r b cm cred s] workloadCalls_status [of b r cm cred s]
    by (simp add: list_all_iff)
  have b: "Type (Spec b) \<noteq> ''sidecar'' \<Longrightarrow>
          fst (reconcileWorkload r b cm cred s) = (\<lparr>Requeue = False\<rparr>, None) \<Longrightarrow>
            isStatusUpdate (last (workloadCalls r b cm cred s))"
    by (auto simp: workloadCalls_eq reconcileWorkload_def Let_def
        split: prod.splits sum.splits option.splits if_splits)
  show ?thesis
    using assms a b workload_frame [OF assms, of b cm cred s] by simp
qed

theorem C9_witness:
  "Client memReconciler = memClient \<and>
   Spec staleDemo \<noteq> Spec demoRef \<and>
   Type (Spec staleDemo) \<noteq> ''sidecar'' \<and>
   reconcileWorkload memReconciler staleDemo demoConfigMap ''demo-credentials'' convergedStore
     = ((\<lparr>Requeue = False\<rparr>, None), reportedStore) \<and>
   specs reportedStore = specs convergedStore \<and>
   isStatusUpdate
     (last (workloadCalls memReconciler staleDemo demoConfigMap ''demo-credentials'' convergedStore))"
proof -
  have m: "Client memReconciler = memClient"
    by (simp add: memReconciler_def)
  have d: "Spec staleDemo \<noteq> Spec demoRef"
    by (simp add: scenario_defs)
  have ty: "Type (Spec staleDemo) \<noteq> ''sidecar''"
    by (simp add: scenario_defs)
  have w: "reconcileWorkload memReconciler staleDemo demoConfigMap ''demo-credentials'' convergedStore
     = ((\<lparr>Requeue = False\<rparr>, None), reportedStore)"
    by (simp add: run_defs store_defs helper_defs scenario_defs)
  note t = C9_status_write_keeps_spec
             [OF m, of staleDemo convergedStore staleDemo demoConfigMap "''demo-credentials''"]
  from t w have t1: "specs reportedStore = specs convergedStore"
    by simp
  from t w ty have t2: "isStatusUpdate
     (last (workloadCalls memReconciler staleDemo demoConfigMap ''demo-credentials'' convergedStore))"
    by simp
  from m d ty w t1 t2 show ?thesis by (intro conjI)
qed

subsection \<open>C10: the lookup of the candidate secret does not report absence\<close>

text \<open>
  C10. When the reference is empty and the lookup of the candidate secret, under the
  name and namespace \<^verbatim>\<open>CreateCredentials\<close> gives it, returns anything other than
  absence (the secret, or any other error), the invocation returns a requeue with no
  error: the lookup was its last call, it creates and updates nothing, so the
  reference stays empty, and the error of the lookup is dropped.
\<close>

theorem C10_candidate_lookup_not_absent_requeues:
  assumes "GetBasicAuthenticator (Client r) req s = (Inr b0, s1)"
    and "GetBasicAuthenticator (Client r) req s1 = (Inr b, s2)"
    and "CredentialsSecretRef (Spec b) = []"
    and "GetSecret (Client r) (Namespace (CreateCredentials r b), Name (CreateCredentials r b)) s2
           = (res, s3)"
    and "res \<noteq> Inl NotFound"
  shows "Reconcile r req s = ((\<lparr>Requeue = True\<rparr>, None), s3) \<and>
         calls r req s =
           [CallGet KBasicAuthenticator req, CallGet KBasicAuthenticator req,
            CallGet KSecret (Namespace (CreateCredentials r b), Name (CreateCredentials r b))] \<and>
         writes r req s = []"
proof (cases res)
  case (Inl e)
  with assms(5) have "\<not> IsNotFound e" by (cases e) simp_all
  with assms Inl show ?thesis
    by (simp add: Reconcile_def reconcileCredentials_def calls_eq credentialsCalls_eq
        writes_def Let_def)
next
  case (Inr found)
  with assms show ?thesis
    by (simp add: Reconcile_def reconcileCredentials_def calls_eq credentialsCalls_eq
        writes_def Let_def)
qed

theorem C10_witness:
  "GetBasicAuthenticator (Client memReconciler) demoReq existingSecretStore
     = (Inr demo, existingSecretStore) \<and>
   CredentialsSecretRef (Spec demo) = [] \<and>
   GetSecret (Client memReconciler)
     (Namespace (CreateCredentials memReconciler demo), Name (CreateCredentials memReconciler demo))
     existingSecretStore = (Inr demoSecret, existingSecretStore) \<and>
   Reconcile memReconciler demoReq existingSecretStore
     = ((\<lparr>Requeue = True\<rparr>, None), existingSecretStore) \<and>
   writes memReconciler demoReq existingSecretStore = [] \<and>
   Reconcile (withSecretLookupError (Failure ''timeout'') memReconciler) demoReq demoStore
     = ((\<lparr>Requeue = True\<rparr>, None), demoStore) \<and>
   writes (withSecretLookupError (Failure ''timeout'') memReconciler) demoReq demoStore = []"
proof -
  have g: "GetBasicAuthenticator (Client memReconciler) demoReq existingSecretStore
             = (Inr demo, existingSecretStore)"
    by (simp add: store_defs scenario_defs)
  have n: "CredentialsSecretRef (Spec demo) = []"
    by (simp add: scenario_defs)
  have f: "GetSecret (Client memReconciler)
             (Namespace (CreateCredentials memReconciler demo),
              Name (CreateCredentials memReconciler demo))
             existingSecretStore = (Inr demoSecret, existingSecretStore)"
    by (simp add: store_defs helper_defs scenario_defs)
  have d: "Inr demoSecret \<noteq> (Inl NotFound :: err + Secret)" by simp
  let ?r = "withSecretLookupError (Failure ''timeout'') memReconciler"
  have g': "GetBasicAuthenticator (Client ?r) demoReq demoStore = (Inr demo, demoStore)"
    by (simp add: withSecretLookupError_def store_defs scenario_defs)
  have f': "GetSecret (Client ?r) (Namespace (CreateCredentials ?r demo), Name (CreateCredentials ?r demo))
             demoStore = (Inl (Failure ''timeout''), demoStore)"
    by (simp add: withSecretLookupError_def)
  have d': "Inl (Failure ''timeout'') \<noteq> (Inl NotFound :: err + Secret)" by simp
  from C10_candidate_lookup_not_absent_requeues [OF g g n f d]
       C10_candidate_lookup_not_absent_requeues [OF g' g' n f' d'] g n f
  show ?thesis by simp
qed

end
